theory Spec2Isabelle
  imports Main
begin

section \<open>The Python runtime the routes rely on\<close>

text \<open>
  The module \<^verbatim>\<open>src/api/routes.py\<close> is glue around three outside parties: the Python
  runtime (JSON values, dictionaries, exceptions), the remote agent service reached
  through \<^verbatim>\<open>ai_client.agents\<close>, and the host (environment variables, the file system).
  This section models the part of the runtime the routes use.

  A JSON value is what \<^verbatim>\<open>json.loads\<close> builds and \<^verbatim>\<open>json.dumps\<close> prints. A dictionary
  is the list of its items in insertion order. Numbers are integers: floating point is
  outside the model. A character is a code point below 256.
\<close>

datatype json =
    JNull
  | JBool bool
  | JInt int
  | JStr string
  | JArr "json list"
  | JObj "(string \<times> json) list"

text \<open>An exception is represented by its text, \<^verbatim>\<open>str(e)\<close>; a fallible operation
  returns \<open>Inl\<close> of that text where the Python raises.\<close>

type_synonym exn = string

text \<open>Truthiness of an \<^verbatim>\<open>Optional[str]\<close>: \<^verbatim>\<open>None\<close> and the empty string are falsy.\<close>

definition truthy :: "string option \<Rightarrow> bool" where
  "truthy v = (case v of None \<Rightarrow> False | Some s \<Rightarrow> s \<noteq> [])"

definition type_name :: "json \<Rightarrow> string" where
  "type_name v =
     (case v of JNull \<Rightarrow> ''NoneType'' | JBool _ \<Rightarrow> ''bool'' | JInt _ \<Rightarrow> ''int''
      | JStr _ \<Rightarrow> ''str'' | JArr _ \<Rightarrow> ''list'' | JObj _ \<Rightarrow> ''dict'')"

text \<open>The texts CPython gives the exceptions it raises itself (version 3.11 and later).\<close>

definition key_error :: "string \<Rightarrow> exn" where
  "key_error k = [CHR 0x27] @ k @ [CHR 0x27]"

definition no_attribute :: "json \<Rightarrow> string \<Rightarrow> exn" where
  "no_attribute v name =
     [CHR 0x27] @ type_name v @ [CHR 0x27] @ '' object has no attribute '' @
     [CHR 0x27] @ name @ [CHR 0x27]"

definition bad_subscript :: "json \<Rightarrow> exn" where
  "bad_subscript v =
     (case v of
        JStr _ \<Rightarrow> ''string indices must be integers, not '' @ [CHR 0x27] @ ''str'' @ [CHR 0x27]
      | JArr _ \<Rightarrow> ''list indices must be integers or slices, not str''
      | _ \<Rightarrow> [CHR 0x27] @ type_name v @ [CHR 0x27] @ '' object is not subscriptable'')"

text \<open>\<^verbatim>\<open>v.get(k, default)\<close>: only a dictionary has the method.\<close>

definition py_get :: "json \<Rightarrow> string \<Rightarrow> json \<Rightarrow> exn + json" where
  "py_get v k dflt =
     (case v of
        JObj d \<Rightarrow> (case map_of d k of None \<Rightarrow> Inr dflt | Some x \<Rightarrow> Inr x)
      | _ \<Rightarrow> Inl (no_attribute v ''get''))"

text \<open>\<^verbatim>\<open>v[k]\<close> with a string key: \<^verbatim>\<open>KeyError\<close> on a dictionary without the key,
  \<^verbatim>\<open>TypeError\<close> on anything that is not a dictionary.\<close>

definition py_getitem :: "json \<Rightarrow> string \<Rightarrow> exn + json" where
  "py_getitem v k =
     (case v of
        JObj d \<Rightarrow> (case map_of d k of None \<Rightarrow> Inl (key_error k) | Some x \<Rightarrow> Inr x)
      | _ \<Rightarrow> Inl (bad_subscript v))"

text \<open>\<^verbatim>\<open>d[k] = v\<close>: an existing key keeps its place, a new key goes last.\<close>

fun dict_set :: "(string \<times> json) list \<Rightarrow> string \<Rightarrow> json \<Rightarrow> (string \<times> json) list" where
  "dict_set [] k v = [(k, v)]"
| "dict_set (p # ps) k v = (if fst p = k then (k, v) # ps else p # dict_set ps k v)"

subsection \<open>\<^verbatim>\<open>json.dumps\<close> with its default arguments\<close>

definition digit_char :: "nat \<Rightarrow> char" where
  "digit_char d = char_of (48 + d)"

fun digits :: "nat \<Rightarrow> string" where
  "digits n = (if n < 10 then [digit_char n] else digits (n div 10) @ [digit_char (n mod 10)])"

definition str_int :: "int \<Rightarrow> string" where
  "str_int i = (if i < 0 then CHR ''-'' # digits (nat (- i)) else digits (nat i))"

definition hex_char :: "nat \<Rightarrow> char" where
  "hex_char d = (if d < 10 then char_of (48 + d) else char_of (87 + d))"

text \<open>\<^verbatim>\<open>ensure_ascii\<close> escaping: the quote and the backslash, the short escapes, and
  \<^verbatim>\<open>\u00xx\<close> for every other character outside the printable ASCII range.\<close>

definition escape_char :: "char \<Rightarrow> string" where
  "escape_char c =
     (let n = (of_char c :: nat) in
      if c = CHR 0x22 then [CHR 0x5C, CHR 0x22]
      else if c = CHR 0x5C then [CHR 0x5C, CHR 0x5C]
      else if c = CHR 0x0A then [CHR 0x5C, CHR ''n'']
      else if c = CHR 0x0D then [CHR 0x5C, CHR ''r'']
      else if c = CHR 0x09 then [CHR 0x5C, CHR ''t'']
      else if c = CHR 0x08 then [CHR 0x5C, CHR ''b'']
      else if c = CHR 0x0C then [CHR 0x5C, CHR ''f'']
      else if n < 0x20 \<or> 0x7E < n
        then [CHR 0x5C, CHR ''u'', CHR ''0'', CHR ''0'', hex_char (n div 16), hex_char (n mod 16)]
      else [c])"

definition quote :: "string \<Rightarrow> string" where
  "quote s = [CHR 0x22] @ concat (map escape_char s) @ [CHR 0x22]"

fun join :: "string \<Rightarrow> string list \<Rightarrow> string" where
  "join sep [] = []"
| "join sep [x] = x"
| "join sep (x # y # ys) = x @ sep @ join sep (y # ys)"

fun json_dumps :: "json \<Rightarrow> string" where
  "json_dumps JNull = ''null''"
| "json_dumps (JBool b) = (if b then ''true'' else ''false'')"
| "json_dumps (JInt i) = str_int i"
| "json_dumps (JStr s) = quote s"
| "json_dumps (JArr xs) = ''['' @ join '', '' (map json_dumps xs) @ '']''"
| "json_dumps (JObj kvs) =
     ''{'' @ join '', '' (map (\<lambda>p. quote (fst p) @ '': '' @ json_dumps (snd p)) kvs) @ ''}''"

section \<open>The SSE wire format\<close>

definition serialize_sse_event :: "json \<Rightarrow> string" where
  "serialize_sse_event data = ''data: '' @ json_dumps data @ [CHR 0x0A, CHR 0x0A]"

section \<open>The remote agent service\<close>

text \<open>
  Threads, messages, runs and files live in the remote service. Its answers are taken
  as given: \<open>'r\<close> is the service's state, and each operation of \<^verbatim>\<open>ai_client.agents\<close>
  maps a state to an answer (\<open>Inl\<close> the text of the exception it raises) and the next
  state. Only the fields the routes read are kept: the identifier of a thread or of a
  created message, the \<^verbatim>\<open>filename\<close> of a file.
\<close>

text \<open>A thread message as the event handler reads it: \<open>file_citation_annotations\<close> holds
  what \<^verbatim>\<open>as_dict()\<close> returns for each annotation, \<open>text_messages\<close> the
  \<^verbatim>\<open>text.value\<close> of each text item.\<close>

record thread_message =
  thread_message_id :: string
  message_status :: string
  file_citation_annotations :: "(string \<times> json) list list"
  text_messages :: "string list"

text \<open>A thread run; \<open>last_error\<close> is the text the f-string prints for it.\<close>

record thread_run =
  run_status :: string
  run_thread_id :: string
  last_error :: string

text \<open>The events of a stream, by the class the SDK decodes them to. \<open>OtherEvent\<close>
  stands for the events whose handler methods \<^verbatim>\<open>MyEventHandler\<close> does not override
  (run steps, unknown events).\<close>

datatype event =
    MessageDelta string
  | ThreadMessageEvent thread_message
  | ThreadRunEvent thread_run
  | ErrorEvent string
  | DoneEvent
  | OtherEvent

text \<open>One run of a created stream: the events it delivers, then either the end of the
  iteration (\<open>None\<close>) or an exception raised while consuming or closing it.\<close>

record stream =
  stream_events :: "event list"
  stream_failure :: "exn option"

record 'r agents =
  get_thread :: "string \<Rightarrow> 'r \<Rightarrow> (exn + string) \<times> 'r"
  create_thread :: "'r \<Rightarrow> (exn + string) \<times> 'r"
  create_message :: "string \<Rightarrow> string \<Rightarrow> json \<Rightarrow> 'r \<Rightarrow> (exn + string) \<times> 'r"
  create_stream :: "string \<Rightarrow> string \<Rightarrow> 'r \<Rightarrow> (exn + stream) \<times> 'r"
  get_file :: "json \<Rightarrow> 'r \<Rightarrow> (exn + string) \<times> 'r"

text \<open>The calls made to the service are logged, in order, beside its state.\<close>

datatype call =
    GetThread string
  | CreateThread
  | CreateMessage string string json
  | CreateStream string string
  | GetFile json

record 'r world =
  remote :: 'r
  calls :: "call list"

definition call_get_thread ::
  "'r agents \<Rightarrow> string \<Rightarrow> 'r world \<Rightarrow> (exn + string) \<times> 'r world" where
  "call_get_thread c thread_id w =
     (case get_thread c thread_id (remote w) of
        (r, s) \<Rightarrow> (r, \<lparr>remote = s, calls = calls w @ [GetThread thread_id]\<rparr>))"

definition call_create_thread :: "'r agents \<Rightarrow> 'r world \<Rightarrow> (exn + string) \<times> 'r world" where
  "call_create_thread c w =
     (case create_thread c (remote w) of
        (r, s) \<Rightarrow> (r, \<lparr>remote = s, calls = calls w @ [CreateThread]\<rparr>))"

definition call_create_message ::
  "'r agents \<Rightarrow> string \<Rightarrow> string \<Rightarrow> json \<Rightarrow> 'r world \<Rightarrow> (exn + string) \<times> 'r world" where
  "call_create_message c thread_id role content w =
     (case create_message c thread_id role content (remote w) of
        (r, s) \<Rightarrow> (r, \<lparr>remote = s, calls = calls w @ [CreateMessage thread_id role content]\<rparr>))"

definition call_create_stream ::
  "'r agents \<Rightarrow> string \<Rightarrow> string \<Rightarrow> 'r world \<Rightarrow> (exn + stream) \<times> 'r world" where
  "call_create_stream c thread_id assistant_id w =
     (case create_stream c thread_id assistant_id (remote w) of
        (r, s) \<Rightarrow> (r, \<lparr>remote = s, calls = calls w @ [CreateStream thread_id assistant_id]\<rparr>))"

definition call_get_file :: "'r agents \<Rightarrow> json \<Rightarrow> 'r world \<Rightarrow> (exn + string) \<times> 'r world" where
  "call_get_file c file_id w =
     (case get_file c file_id (remote w) of
        (r, s) \<Rightarrow> (r, \<lparr>remote = s, calls = calls w @ [GetFile file_id]\<rparr>))"

section \<open>The event handler\<close>

text \<open>Each method of \<^verbatim>\<open>MyEventHandler\<close> returns an SSE frame or \<^verbatim>\<open>None\<close>.\<close>

definition on_message_delta :: "string \<Rightarrow> string option" where
  "on_message_delta text =
     Some (serialize_sse_event (JObj [(''content'', JStr text), (''type'', JStr ''message'')]))"

text \<open>The loop of \<^verbatim>\<open>on_thread_message\<close> over the annotations: it stops at the first
  exception, which the method's \<^verbatim>\<open>except Exception\<close> then swallows.\<close>

fun enrich ::
  "'r agents \<Rightarrow> (string \<times> json) list list \<Rightarrow> 'r world \<Rightarrow> (exn + json list) \<times> 'r world" where
  "enrich c [] w = (Inr [], w)"
| "enrich c (annotation # rest) w =
     (case py_getitem (JObj annotation) ''file_citation'' of
        Inl e \<Rightarrow> (Inl e, w)
      | Inr citation \<Rightarrow>
          (case py_getitem citation ''file_id'' of
             Inl e \<Rightarrow> (Inl e, w)
           | Inr file_id \<Rightarrow>
               (case call_get_file c file_id w of
                  (Inl e, w1) \<Rightarrow> (Inl e, w1)
                | (Inr filename, w1) \<Rightarrow>
                    (case enrich c rest w1 of
                       (Inl e, w2) \<Rightarrow> (Inl e, w2)
                     | (Inr annotations, w2) \<Rightarrow>
                         (Inr (JObj (dict_set annotation ''file_name'' (JStr filename))
                               # annotations), w2)))))"

definition on_thread_message ::
  "'r agents \<Rightarrow> thread_message \<Rightarrow> 'r world \<Rightarrow> string option \<times> 'r world" where
  "on_thread_message c message w =
     (if message_status message \<noteq> ''completed'' then (None, w)
      else
        (case enrich c (file_citation_annotations message) w of
           (Inl e, w1) \<Rightarrow> (None, w1)
         | (Inr annotations, w1) \<Rightarrow>
             (case text_messages message of
                [] \<Rightarrow> (None, w1)
              | t # _ \<Rightarrow>
                  (Some (serialize_sse_event
                     (JObj [(''content'', JStr t),
                            (''annotations'', JArr annotations),
                            (''type'', JStr ''completed_message'')])), w1))))"

definition on_thread_run :: "thread_run \<Rightarrow> string option" where
  "on_thread_run run =
     (let run_info = ''ThreadRun status: '' @ run_status run @ '', thread ID: '' @ run_thread_id run;
          run_info = (if run_status run = ''failed''
                      then run_info @ '', error: '' @ last_error run else run_info)
      in Some (serialize_sse_event (JObj [(''content'', JStr run_info), (''type'', JStr ''thread_run'')])))"

definition on_error :: "string \<Rightarrow> string option" where
  "on_error data = Some (serialize_sse_event (JObj [(''type'', JStr ''stream_end'')]))"

definition on_done :: "string option" where
  "on_done = Some (serialize_sse_event (JObj [(''type'', JStr ''stream_end'')]))"

text \<open>The SDK's stream hands each event to the handler method of its class and yields
  the method's return value; a method that is not overridden returns \<^verbatim>\<open>None\<close>.\<close>

definition process_event :: "'r agents \<Rightarrow> event \<Rightarrow> 'r world \<Rightarrow> string option \<times> 'r world" where
  "process_event c ev w =
     (case ev of
        MessageDelta text \<Rightarrow> (on_message_delta text, w)
      | ThreadMessageEvent message \<Rightarrow> on_thread_message c message w
      | ThreadRunEvent run \<Rightarrow> (on_thread_run run, w)
      | ErrorEvent data \<Rightarrow> (on_error data, w)
      | DoneEvent \<Rightarrow> (on_done, w)
      | OtherEvent \<Rightarrow> (None, w))"

section \<open>The event translator\<close>

text \<open>The \<^verbatim>\<open>async for\<close> loop of \<^verbatim>\<open>get_result\<close>: a truthy return value is yielded, a
  falsy one (\<^verbatim>\<open>None\<close> or the empty string) is skipped.\<close>

fun consume :: "'r agents \<Rightarrow> event list \<Rightarrow> 'r world \<Rightarrow> string list \<times> 'r world" where
  "consume c [] w = ([], w)"
| "consume c (ev # evs) w =
     (case process_event c ev w of
        (event_return_val, w1) \<Rightarrow>
          (case consume c evs w1 of
             (frames, w2) \<Rightarrow>
               ((if truthy event_return_val then the event_return_val # frames else frames), w2)))"

definition error_frame :: "exn \<Rightarrow> string" where
  "error_frame e = serialize_sse_event (JObj [(''type'', JStr ''error''), (''message'', JStr e)])"

definition get_result ::
  "'r agents \<Rightarrow> string \<Rightarrow> string \<Rightarrow> 'r world \<Rightarrow> string list \<times> 'r world" where
  "get_result c thread_id agent_id w =
     (case call_create_stream c thread_id agent_id w of
        (Inl e, w1) \<Rightarrow> ([error_frame e], w1)
      | (Inr s, w1) \<Rightarrow>
          (case consume c (stream_events s) w1 of
             (frames, w2) \<Rightarrow>
               (case stream_failure s of
                  None \<Rightarrow> (frames, w2)
                | Some e \<Rightarrow> (frames @ [error_frame e], w2))))"

section \<open>The request router\<close>

text \<open>A request as the routes read it: the cookies and the query parameters as
  dictionaries, and the outcome of \<^verbatim>\<open>await request.json()\<close> (\<open>Inl\<close> when the body is
  not valid JSON).\<close>

record request =
  cookies :: "string \<rightharpoonup> string"
  query_params :: "string \<rightharpoonup> string"
  json_body :: "exn + json"

text \<open>What a route hands back to the framework: a raised \<^verbatim>\<open>HTTPException\<close> (status,
  detail), one of the response classes, or an exception nothing catches, which the
  framework answers with status 500. A \<open>StreamingResponse\<close> keeps the arguments of the
  generator that will produce its body, its headers and the cookies set on it.\<close>

datatype response =
    HTTPException nat string
  | PlainTextResponse string
  | JSONResponse json nat
  | StreamingResponse string string "(string \<times> string) list" "(string \<times> string) list"
  | Unhandled exn

fun status_code :: "response \<Rightarrow> nat" where
  "status_code (HTTPException status detail) = status"
| "status_code (PlainTextResponse body) = 200"
| "status_code (JSONResponse content status) = status"
| "status_code (StreamingResponse thread_id agent_id headers cs) = 200"
| "status_code (Unhandled e) = 500"


record agent =
  agent_ident :: string

text \<open>The first \<^verbatim>\<open>try\<close> block of \<^verbatim>\<open>chat\<close>: retrieve the thread of the cookie, or
  create one.\<close>

definition chat_thread ::
  "'r agents \<Rightarrow> agent \<Rightarrow> request \<Rightarrow> 'r world \<Rightarrow> (exn + string) \<times> 'r world" where
  "chat_thread c agent req w =
     (let thread_id = cookies req ''thread_id'';
          agent_id = cookies req ''agent_id''
      in if truthy thread_id \<and> agent_id = Some (agent_ident agent)
         then call_get_thread c (the thread_id) w
         else call_create_thread c w)"

definition chat :: "'r agents \<Rightarrow> agent \<Rightarrow> request \<Rightarrow> 'r world \<Rightarrow> response \<times> 'r world" where
  "chat c agent req w =
     (case chat_thread c agent req w of
        (Inl e, w1) \<Rightarrow> (HTTPException 400 (''Thread error: '' @ e), w1)
      | (Inr thread_id, w1) \<Rightarrow>
          (let agent_id = agent_ident agent in
           case (case json_body req of
                   Inl e \<Rightarrow> Inl e
                 | Inr user_data \<Rightarrow> py_get user_data ''message'' (JStr [])) of
             Inl e \<Rightarrow> (HTTPException 400 (''Invalid JSON: '' @ e), w1)
           | Inr user_message \<Rightarrow>
               (case call_create_message c thread_id ''user'' user_message w1 of
                  (Inl e, w2) \<Rightarrow> (HTTPException 500 (''Message creation error: '' @ e), w2)
                | (Inr message_id, w2) \<Rightarrow>
                    (StreamingResponse thread_id agent_id
                       [(''Cache-Control'', ''no-cache''),
                        (''Connection'', ''keep-alive''),
                        (''Content-Type'', ''text/event-stream'')]
                       [(''thread_id'', thread_id), (''agent_id'', agent_id)], w2))))"

text \<open>The body of a response to \<^verbatim>\<open>POST /chat\<close>: the frames its generator yields when
  the framework runs it, for a streaming response.\<close>

definition chat_body :: "'r agents \<Rightarrow> response \<times> 'r world \<Rightarrow> (string list \<times> 'r world) option" where
  "chat_body c rw =
     (case rw of
        (StreamingResponse thread_id agent_id headers cs, w) \<Rightarrow> Some (get_result c thread_id agent_id w)
      | _ \<Rightarrow> None)"

section \<open>Document retrieval\<close>

text \<open>
  The host of \<^verbatim>\<open>fetch_document\<close>: the environment variables, the parser behind
  \<^verbatim>\<open>json.loads\<close> (\<open>None\<close> where it raises \<^verbatim>\<open>JSONDecodeError\<close>), and what opening and
  reading a path as UTF-8 text gives (\<open>Inl\<close> where either raises).
\<close>

record host =
  environ :: "string \<rightharpoonup> string"
  parse_json :: "string \<Rightarrow> json option"
  open_read :: "json \<Rightarrow> exn + string"

text \<open>\<^verbatim>\<open>json.loads\<close>: the text \<^verbatim>\<open>{}\<close>, which the route itself supplies as the default,
  is the empty dictionary; every other text is left to the host's parser.\<close>

definition json_loads :: "host \<Rightarrow> string \<Rightarrow> json option" where
  "json_loads h s = (if s = ''{}'' then Some (JObj []) else parse_json h s)"

definition read_file :: "host \<Rightarrow> json \<Rightarrow> exn + string" where
  "read_file h path = open_read h path"

text \<open>The file map of \<^verbatim>\<open>fetch_document\<close>: the value of \<^verbatim>\<open>UPLOADED_FILE_MAP\<close> (the text
  \<^verbatim>\<open>{}\<close> when the variable is absent) parsed as JSON, the empty dictionary when the
  parser raises \<^verbatim>\<open>JSONDecodeError\<close>.\<close>

definition uploaded_file_map :: "host \<Rightarrow> json" where
  "uploaded_file_map h =
     (let files_env = (case environ h ''UPLOADED_FILE_MAP'' of None \<Rightarrow> ''{}'' | Some v \<Rightarrow> v)
      in case json_loads h files_env of None \<Rightarrow> JObj [] | Some files \<Rightarrow> files)"

text \<open>The log line before the lookup evaluates \<^verbatim>\<open>files.keys()\<close>: a file map that is
  valid JSON but not a dictionary raises there, and nothing catches it.\<close>

definition fetch_document :: "host \<Rightarrow> request \<Rightarrow> response" where
  "fetch_document h req =
     (let file_name = query_params req ''file_name'' in
      if \<not> truthy file_name then HTTPException 400 ''file_name is required''
      else
        (let files = uploaded_file_map h
         in case files of
              JObj items \<Rightarrow>
                (case map_of items (the file_name) of
                   None \<Rightarrow> HTTPException 404 ''File not found''
                 | Some entry \<Rightarrow>
                     (case py_getitem entry ''path'' of
                        Inl e \<Rightarrow> JSONResponse (JObj [(''error'', JStr e)]) 500
                      | Inr file_path \<Rightarrow>
                          (case read_file h file_path of
                             Inl e \<Rightarrow> JSONResponse (JObj [(''error'', JStr e)]) 500
                           | Inr data \<Rightarrow> PlainTextResponse data)))
            | _ \<Rightarrow> Unhandled (no_attribute files ''keys'')))"

section \<open>Observations on a run\<close>

text \<open>The frame that \<^verbatim>\<open>on_done\<close> and \<^verbatim>\<open>on_error\<close> return.\<close>

definition stream_end_frame :: string where
  "stream_end_frame = serialize_sse_event (JObj [(''type'', JStr ''stream_end'')])"

text \<open>A frame of the form \<^verbatim>\<open>{"type": "error", "message": ...}\<close> is one that starts with
  the text every such frame starts with.\<close>

definition error_prefix :: string where
  "error_prefix =
     ''data: {'' @ [CHR 0x22] @ ''type'' @ [CHR 0x22] @ '': '' @ [CHR 0x22] @ ''error'' @ [CHR 0x22] @
     '', '' @ [CHR 0x22] @ ''message'' @ [CHR 0x22] @ '': ''"

definition is_error_frame :: "string \<Rightarrow> bool" where
  "is_error_frame f = (take (length error_prefix) f = error_prefix)"

fun is_get_file :: "call \<Rightarrow> bool" where
  "is_get_file (GetFile file_id) = True"
| "is_get_file _ = False"

text \<open>What opening the stream answers in a given world, and the exception a run of
  \<^verbatim>\<open>get_result\<close> meets there: the one raised by \<^verbatim>\<open>create_stream\<close>, or the one the
  created stream raises.\<close>

definition opened_stream :: "'r agents \<Rightarrow> string \<Rightarrow> string \<Rightarrow> 'r world \<Rightarrow> exn + stream" where
  "opened_stream c thread_id agent_id w = fst (create_stream c thread_id agent_id (remote w))"

definition stream_error :: "'r agents \<Rightarrow> string \<Rightarrow> string \<Rightarrow> 'r world \<Rightarrow> exn option" where
  "stream_error c thread_id agent_id w =
     (case opened_stream c thread_id agent_id w of Inl e \<Rightarrow> Some e | Inr s \<Rightarrow> stream_failure s)"

text \<open>The events whose handlers return the \<^verbatim>\<open>stream_end\<close> frame.\<close>

fun is_terminal :: "event \<Rightarrow> bool" where
  "is_terminal DoneEvent = True"
| "is_terminal (ErrorEvent data) = True"
| "is_terminal _ = False"


text \<open>The call the thread step of \<^verbatim>\<open>chat\<close> makes for a request.\<close>

definition thread_call :: "agent \<Rightarrow> request \<Rightarrow> call" where
  "thread_call agent req =
     (if truthy (cookies req ''thread_id'') \<and> cookies req ''agent_id'' = Some (agent_ident agent)
      then GetThread (the (cookies req ''thread_id'')) else CreateThread)"

section \<open>Reading a frame back\<close>

text \<open>
  What a client reads from a frame, written from the JSON grammar and not from the
  serialiser: a string literal up to its closing quote, with the escapes undone (only
  code points below 256 are in the model), a field \<^verbatim>\<open>"key": "value"\<close>, and an object of
  two such fields. \<open>None\<close> where the text is not of that form.
\<close>

definition hex_val :: "char \<Rightarrow> nat option" where
  "hex_val c =
     (let n = (of_char c :: nat) in
      if 48 \<le> n \<and> n \<le> 57 then Some (n - 48)
      else if 97 \<le> n \<and> n \<le> 102 then Some (n - 87)
      else if 65 \<le> n \<and> n \<le> 70 then Some (n - 55)
      else None)"

definition unescape_short :: "char \<Rightarrow> char option" where
  "unescape_short e =
     (if e = CHR 0x22 then Some (CHR 0x22)
      else if e = CHR 0x5C then Some (CHR 0x5C)
      else if e = CHR ''/'' then Some (CHR ''/'')
      else if e = CHR ''n'' then Some (CHR 0x0A)
      else if e = CHR ''r'' then Some (CHR 0x0D)
      else if e = CHR ''t'' then Some (CHR 0x09)
      else if e = CHR ''b'' then Some (CHR 0x08)
      else if e = CHR ''f'' then Some (CHR 0x0C)
      else None)"

text \<open>The text after an opening quote: the string it spells, and what follows its
  closing quote.\<close>

fun read_string :: "string \<Rightarrow> (string \<times> string) option" where
  "read_string [] = None"
| "read_string (c # cs) =
     (if c = CHR 0x22 then Some ([], cs)
      else if c = CHR 0x5C then
        (case cs of
           [] \<Rightarrow> None
         | e # r \<Rightarrow>
             (if e = CHR ''u'' then
                (case r of
                   a # b # x # y # r' \<Rightarrow>
                     (if hex_val a = Some 0 \<and> hex_val b = Some 0 then
                        (case hex_val x of
                           None \<Rightarrow> None
                         | Some h \<Rightarrow>
                             (case hex_val y of
                                None \<Rightarrow> None
                              | Some l \<Rightarrow>
                                  map_option (apfst ((#) (char_of (16 * h + l)))) (read_string r')))
                      else None)
                 | _ \<Rightarrow> None)
              else
                (case unescape_short e of
                   None \<Rightarrow> None
                 | Some d \<Rightarrow> map_option (apfst ((#) d)) (read_string r))))
      else if (of_char c :: nat) < 0x20 then None
      else map_option (apfst ((#) c)) (read_string cs))"

definition read_quoted :: "string \<Rightarrow> (string \<times> string) option" where
  "read_quoted s = (case s of [] \<Rightarrow> None | c # cs \<Rightarrow> if c = CHR 0x22 then read_string cs else None)"

definition expect :: "string \<Rightarrow> string \<Rightarrow> string option" where
  "expect p s = (if take (length p) s = p then Some (drop (length p) s) else None)"

definition read_field :: "string \<Rightarrow> ((string \<times> string) \<times> string) option" where
  "read_field s =
     (case read_quoted s of
        None \<Rightarrow> None
      | Some (k, s1) \<Rightarrow>
          (case expect '': '' s1 of
             None \<Rightarrow> None
           | Some s2 \<Rightarrow>
               (case read_quoted s2 of
                  None \<Rightarrow> None
                | Some (v, s3) \<Rightarrow> Some ((k, v), s3))))"

text \<open>The first field of an object, when its value is a string.\<close>

definition read_first_field :: "string \<Rightarrow> (string \<times> string) option" where
  "read_first_field s =
     (case expect ''{'' s of
        None \<Rightarrow> None
      | Some s1 \<Rightarrow> map_option fst (read_field s1))"

text \<open>An object of exactly two fields, both with string values.\<close>

definition read_pair_object :: "string \<Rightarrow> ((string \<times> string) \<times> (string \<times> string)) option" where
  "read_pair_object s =
     (case expect ''{'' s of
        None \<Rightarrow> None
      | Some s1 \<Rightarrow>
          (case read_field s1 of
             None \<Rightarrow> None
           | Some (f1, s2) \<Rightarrow>
               (case expect '', '' s2 of
                  None \<Rightarrow> None
                | Some s3 \<Rightarrow>
                    (case read_field s3 of
                       None \<Rightarrow> None
                     | Some (f2, s4) \<Rightarrow> if s4 = ''}'' then Some (f1, f2) else None))))"

text \<open>
  The display names of the files the annotations cite, as the service answers them when
  they are looked up one after the other from a given state, with the state it is left
  in. \<open>None\<close> when an annotation cites no file or a lookup fails.
\<close>

fun looked_up_names ::
  "'r agents \<Rightarrow> (string \<times> json) list list \<Rightarrow> 'r \<Rightarrow> (string list \<times> 'r) option" where
  "looked_up_names c [] s = Some ([], s)"
| "looked_up_names c (a # rest) s =
     (case map_of a ''file_citation'' of
        Some (JObj citation) \<Rightarrow>
          (case map_of citation ''file_id'' of
             None \<Rightarrow> None
           | Some file_id \<Rightarrow>
               (case get_file c file_id s of
                  (Inl e, s1) \<Rightarrow> None
                | (Inr name, s1) \<Rightarrow>
                    (case looked_up_names c rest s1 of
                       None \<Rightarrow> None
                     | Some (names, s') \<Rightarrow> Some (name # names, s'))))
      | _ \<Rightarrow> None)"

section \<open>Sample runs\<close>

text \<open>A service with one thread, \<^verbatim>\<open>thread_1\<close>, and one file, \<^verbatim>\<open>file_1\<close>; its state
  counts the threads created. Its stream delivers a run update, a delta, a message in
  progress, the completed message with one citation, and the completion event.\<close>

definition sample_agent :: agent where
  "sample_agent = \<lparr>agent_ident = ''asst_1''\<rparr>"

definition cited_message :: thread_message where
  "cited_message =
     \<lparr>thread_message_id = ''msg_2'', message_status = ''completed'',
      file_citation_annotations =
        [[(''type'', JStr ''file_citation''), (''text'', JStr ''[1]''),
          (''file_citation'', JObj [(''file_id'', JStr ''file_1'')]),
          (''start_index'', JInt 6), (''end_index'', JInt 9)]],
      text_messages = [''Hello [1]'']\<rparr>"

text \<open>A completed message without a text item, and the cited message with a second
  citation, of a file the service does not know.\<close>

definition textless_message :: thread_message where
  "textless_message =
     \<lparr>thread_message_id = ''msg_3'', message_status = ''completed'',
      file_citation_annotations = [], text_messages = []\<rparr>"

definition unknown_file_message :: thread_message where
  "unknown_file_message =
     cited_message\<lparr>file_citation_annotations :=
        file_citation_annotations cited_message @
        [[(''type'', JStr ''file_citation''), (''text'', JStr ''[2]''),
          (''file_citation'', JObj [(''file_id'', JStr ''file_9'')])]]\<rparr>"

definition sample_stream :: stream where
  "sample_stream =
     \<lparr>stream_events =
        [ThreadRunEvent \<lparr>run_status = ''in_progress'', run_thread_id = ''thread_1'', last_error = ''None''\<rparr>,
         MessageDelta ''Hello'',
         ThreadMessageEvent (cited_message\<lparr>message_status := ''in_progress''\<rparr>),
         ThreadMessageEvent cited_message,
         DoneEvent],
      stream_failure = None\<rparr>"

definition sample_agents :: "nat agents" where
  "sample_agents =
     \<lparr>get_thread = (\<lambda>thread_id s.
        (if thread_id = ''thread_1'' then Inr thread_id else Inl ''No thread found'', s)),
      create_thread = (\<lambda>s. (Inr ''thread_2'', Suc s)),
      create_message = (\<lambda>thread_id role content s. (Inr ''msg_1'', s)),
      create_stream = (\<lambda>thread_id assistant_id s. (Inr sample_stream, s)),
      get_file = (\<lambda>file_id s.
        (if file_id = JStr ''file_1'' then Inr ''report.md'' else Inl ''No file found'', s))\<rparr>"

text \<open>The same service when \<^verbatim>\<open>create_stream\<close> raises, and when the stream breaks after
  its first delta.\<close>

definition refusing_agents :: "nat agents" where
  "refusing_agents =
     sample_agents\<lparr>create_stream := (\<lambda>thread_id assistant_id s. (Inl ''Connection refused'', s))\<rparr>"

definition breaking_agents :: "nat agents" where
  "breaking_agents =
     sample_agents\<lparr>create_stream := (\<lambda>thread_id assistant_id s.
        (Inr \<lparr>stream_events = [MessageDelta ''Hel''], stream_failure = Some ''Connection reset''\<rparr>, s))\<rparr>"

text \<open>The same service when \<^verbatim>\<open>create_message\<close> raises.\<close>

definition unposting_agents :: "nat agents" where
  "unposting_agents =
     sample_agents\<lparr>create_message := (\<lambda>thread_id role content s. (Inl ''Rate limit exceeded'', s))\<rparr>"

text \<open>A completed message with two text items.\<close>

definition two_text_message :: thread_message where
  "two_text_message =
     \<lparr>thread_message_id = ''msg_4'', message_status = ''completed'',
      file_citation_annotations = [], text_messages = [''Part one.'', ''Part two.'']\<rparr>"

definition w0 :: "nat world" where
  "w0 = \<lparr>remote = 0, calls = []\<rparr>"

text \<open>Requests: a first visit with a body that is not JSON, a returning visit with a
  message, a first visit whose body is the empty object.\<close>

definition malformed_request :: request where
  "malformed_request =
     \<lparr>cookies = Map.empty, query_params = Map.empty,
      json_body = Inl ''Expecting value: line 1 column 1 (char 0)''\<rparr>"

definition returning_request :: request where
  "returning_request =
     \<lparr>cookies = [''thread_id'' \<mapsto> ''thread_1'', ''agent_id'' \<mapsto> ''asst_1''],
      query_params = Map.empty,
      json_body = Inr (JObj [(''message'', JStr ''hi'')])\<rparr>"

definition empty_object_request :: request where
  "empty_object_request =
     \<lparr>cookies = Map.empty, query_params = Map.empty, json_body = Inr (JObj [])\<rparr>"


text \<open>Hosts: one without \<^verbatim>\<open>UPLOADED_FILE_MAP\<close>, one where its value does not parse, one
  with a map of three names: a readable file, a path that does not exist, an entry
  without a path. The text of the map is what \<^verbatim>\<open>json.dumps\<close> prints for it.\<close>

definition bare_host :: host where
  "bare_host =
     \<lparr>environ = Map.empty, parse_json = (\<lambda>s. None),
      open_read = (\<lambda>path. Inl ''[Errno 2] No such file or directory'')\<rparr>"

definition garbled_host :: host where
  "garbled_host = bare_host\<lparr>environ := [''UPLOADED_FILE_MAP'' \<mapsto> ''{oops'']\<rparr>"

definition docs_map :: json where
  "docs_map =
     JObj [(''a.md'', JObj [(''path'', JStr ''/data/a.md'')]),
           (''b.md'', JObj [(''path'', JStr ''/data/b.md'')]),
           (''c.md'', JObj [])]"

definition docs_host :: host where
  "docs_host =
     \<lparr>environ = [''UPLOADED_FILE_MAP'' \<mapsto> json_dumps docs_map],
      parse_json = (\<lambda>s. if s = json_dumps docs_map then Some docs_map else None),
      open_read = (\<lambda>path.
        if path = JStr ''/data/a.md'' then Inr ''# Notes''
        else Inl ''[Errno 2] No such file or directory'')\<rparr>"

definition document_request :: "string option \<Rightarrow> request" where
  "document_request file_name =
     \<lparr>cookies = Map.empty,
      query_params = (case file_name of None \<Rightarrow> Map.empty | Some n \<Rightarrow> [''file_name'' \<mapsto> n]),
      json_body = Inl []\<rparr>"

section \<open>Frames and calls of the translator\<close>

lemma quote_type: "quote ''type'' = [CHR 0x22, CHR ''t'', CHR ''y'', CHR ''p'', CHR ''e'', CHR 0x22]"
  by (simp add: quote_def escape_char_def)

lemma quote_content: "quote ''content'' = CHR 0x22 # ''content'' @ [CHR 0x22]"
  by (simp add: quote_def escape_char_def)

lemma quote_error: "quote ''error'' = CHR 0x22 # ''error'' @ [CHR 0x22]"
  by (simp add: quote_def escape_char_def)

lemma quote_stream_end: "quote ''stream_end'' = CHR 0x22 # ''stream_end'' @ [CHR 0x22]"
  by (simp add: quote_def escape_char_def)

lemma quote_message: "quote ''message'' = CHR 0x22 # ''message'' @ [CHR 0x22]"
  by (simp add: quote_def escape_char_def)

lemma error_prefix_eq: "error_prefix = ''data: {'' @ [CHR 0x22] @ ''type'' @ [CHR 0x22] @ '': '' @ [CHR 0x22] @ ''error'' @ [CHR 0x22] @ '', '' @ [CHR 0x22] @ ''message'' @ [CHR 0x22] @ '': ''"
  by (simp add: error_prefix_def)

lemma error_frame_is_error: "is_error_frame (error_frame e)"
  by (simp add: is_error_frame_def error_frame_def serialize_sse_event_def error_prefix_eq quote_type quote_error quote_message)

lemma stream_end_not_error: "\<not> is_error_frame stream_end_frame"
  by (simp add: is_error_frame_def stream_end_frame_def serialize_sse_event_def error_prefix_eq quote_type quote_stream_end)

lemma content_not_error: "\<not> is_error_frame (serialize_sse_event (JObj ((''content'', v) # kvs)))"
  by (cases kvs) (simp_all add: is_error_frame_def serialize_sse_event_def error_prefix_eq quote_content)

lemma serialize_truthy: "truthy (Some (serialize_sse_event d))"
  by (simp add: truthy_def serialize_sse_event_def)

lemma call_get_file_calls: "calls (snd (call_get_file c f w)) = calls w @ [GetFile f]"
  by (simp add: call_get_file_def split: prod.splits)

lemma enrich_calls:
  "\<exists>gs. calls (snd (enrich c anns w)) = calls w @ gs \<and> list_all is_get_file gs"
proof (induction anns arbitrary: w)
  case Nil
  show ?case by simp
next
  case (Cons a rest)
  show ?case
  proof (cases "py_getitem (JObj a) ''file_citation''")
    case (Inl e)
    then show ?thesis by simp
  next
    case cit: (Inr citation)
    show ?thesis
    proof (cases "py_getitem citation ''file_id''")
      case (Inl e)
      with cit show ?thesis by simp
    next
      case fid: (Inr file_id)
      obtain r w1 where g: "call_get_file c file_id w = (r, w1)" by (cases "call_get_file c file_id w")
      have w1: "calls w1 = calls w @ [GetFile file_id]"
        using call_get_file_calls [of c file_id w] g by simp
      show ?thesis
      proof (cases r)
        case (Inl e)
        with cit fid g w1 show ?thesis by simp
      next
        case (Inr filename)
        obtain gs where gs: "calls (snd (enrich c rest w1)) = calls w1 @ gs" "list_all is_get_file gs"
          using Cons.IH [of w1] by blast
        have "calls (snd (enrich c (a # rest) w)) = calls (snd (enrich c rest w1))"
          using cit fid g Inr by (simp split: prod.splits sum.splits)
        with gs w1 have "calls (snd (enrich c (a # rest) w)) = calls w @ (GetFile file_id # gs)"
          by simp
        moreover have "list_all is_get_file (GetFile file_id # gs)" using gs by simp
        ultimately show ?thesis by blast
      qed
    qed
  qed
qed

lemma process_event_calls:
  "\<exists>gs. calls (snd (process_event c ev w)) = calls w @ gs \<and> list_all is_get_file gs"
proof (cases ev)
  case (ThreadMessageEvent m)
  obtain gs where gs: "calls (snd (enrich c (file_citation_annotations m) w)) = calls w @ gs"
      "list_all is_get_file gs"
    using enrich_calls by blast
  have "calls (snd (on_thread_message c m w)) = calls w
      \<or> calls (snd (on_thread_message c m w)) = calls (snd (enrich c (file_citation_annotations m) w))"
    by (simp add: on_thread_message_def split: prod.splits sum.splits list.splits)
  then show ?thesis
  proof
    assume "calls (snd (on_thread_message c m w)) = calls w"
    then have "calls (snd (process_event c ev w)) = calls w @ [] \<and> list_all is_get_file []"
      using ThreadMessageEvent by (simp add: process_event_def)
    then show ?thesis by blast
  next
    assume "calls (snd (on_thread_message c m w)) = calls (snd (enrich c (file_citation_annotations m) w))"
    then have "calls (snd (process_event c ev w)) = calls w @ gs"
      using ThreadMessageEvent gs by (simp add: process_event_def)
    with gs show ?thesis by blast
  qed
qed (simp_all add: process_event_def)

lemma consume_calls:
  "\<exists>gs. calls (snd (consume c evs w)) = calls w @ gs \<and> list_all is_get_file gs"
proof (induction evs arbitrary: w)
  case Nil
  show ?case by simp
next
  case (Cons ev evs)
  obtain r w1 where p: "process_event c ev w = (r, w1)" by (cases "process_event c ev w")
  obtain gs1 where gs1: "calls w1 = calls w @ gs1" "list_all is_get_file gs1"
    using process_event_calls [of c ev w] p by auto
  obtain gs2 where gs2: "calls (snd (consume c evs w1)) = calls w1 @ gs2" "list_all is_get_file gs2"
    using Cons.IH [of w1] by blast
  have "calls (snd (consume c (ev # evs) w)) = calls (snd (consume c evs w1))"
    using p by (simp split: prod.splits)
  with gs1 gs2 have "calls (snd (consume c (ev # evs) w)) = calls w @ (gs1 @ gs2)" by simp
  moreover have "list_all is_get_file (gs1 @ gs2)" using gs1 gs2 by simp
  ultimately show ?case by blast
qed

lemma consume_append:
  "consume c (xs @ ys) w =
     (fst (consume c xs w) @ fst (consume c ys (snd (consume c xs w))),
      snd (consume c ys (snd (consume c xs w))))"
  by (induction xs arbitrary: w) (simp_all split: prod.splits)

lemma process_event_frame:
  "fst (process_event c ev w) = Some f \<Longrightarrow> f \<noteq> [] \<and> \<not> is_error_frame f"
proof (cases ev)
  case (ThreadMessageEvent m)
  assume "fst (process_event c ev w) = Some f"
  with ThreadMessageEvent have "fst (on_thread_message c m w) = Some f"
    by (simp add: process_event_def)
  then obtain v kvs where "f = serialize_sse_event (JObj ((''content'', v) # kvs))"
    by (auto simp: on_thread_message_def split: if_splits prod.splits sum.splits list.splits)
  then show ?thesis using content_not_error serialize_truthy [of "JObj ((''content'', v) # kvs)"]
    by (simp add: truthy_def)
next
  case (MessageDelta t)
  assume "fst (process_event c ev w) = Some f"
  with MessageDelta show ?thesis
    using content_not_error serialize_truthy [of "JObj [(''content'', JStr t), (''type'', JStr ''message'')]"]
    by (auto simp: process_event_def on_message_delta_def truthy_def)
next
  case (ThreadRunEvent run)
  assume "fst (process_event c ev w) = Some f"
  with ThreadRunEvent obtain v kvs where "f = serialize_sse_event (JObj ((''content'', v) # kvs))"
    by (auto simp: process_event_def on_thread_run_def Let_def)
  then show ?thesis using content_not_error serialize_truthy [of "JObj ((''content'', v) # kvs)"]
    by (simp add: truthy_def)
next
  case (ErrorEvent d)
  assume "fst (process_event c ev w) = Some f"
  with ErrorEvent have "f = stream_end_frame"
    by (simp add: process_event_def on_error_def stream_end_frame_def)
  then show ?thesis using stream_end_not_error serialize_truthy [of "JObj [(''type'', JStr ''stream_end'')]"]
    by (simp add: truthy_def stream_end_frame_def)
next
  case DoneEvent
  assume "fst (process_event c ev w) = Some f"
  with DoneEvent have "f = stream_end_frame"
    by (simp add: process_event_def on_done_def stream_end_frame_def)
  then show ?thesis using stream_end_not_error serialize_truthy [of "JObj [(''type'', JStr ''stream_end'')]"]
    by (simp add: truthy_def stream_end_frame_def)
next
  case OtherEvent
  assume "fst (process_event c ev w) = Some f"
  with OtherEvent show ?thesis by (simp add: process_event_def)
qed

lemma consume_Cons_fst:
  "fst (consume c (ev # evs) w) =
     (if truthy (fst (process_event c ev w))
      then the (fst (process_event c ev w)) # fst (consume c evs (snd (process_event c ev w)))
      else fst (consume c evs (snd (process_event c ev w))))"
  by (simp split: prod.splits)

lemma consume_Cons_snd:
  "snd (consume c (ev # evs) w) = snd (consume c evs (snd (process_event c ev w)))"
  by (simp split: prod.splits)

lemma consume_no_error_frame: "list_all (\<lambda>f. \<not> is_error_frame f) (fst (consume c evs w))"
proof (induction evs arbitrary: w)
  case Nil
  show ?case by simp
next
  case (Cons ev evs)
  have tail: "list_all (\<lambda>f. \<not> is_error_frame f) (fst (consume c evs (snd (process_event c ev w))))"
    by (rule Cons.IH)
  show ?case
  proof (cases "fst (process_event c ev w)")
    case None
    with tail show ?thesis by (simp only: consume_Cons_fst) (simp add: truthy_def)
  next
    case (Some f)
    then have "\<not> is_error_frame f" using process_event_frame [of c ev w f] by simp
    with Some tail show ?thesis by (simp only: consume_Cons_fst) (simp add: truthy_def)
  qed
qed

lemma consume_terminal:
  "is_terminal ev \<Longrightarrow> fst (consume c [ev] w) = [stream_end_frame]"
  using serialize_truthy [of "JObj [(''type'', JStr ''stream_end'')]"]
  by (cases ev) (simp_all add: process_event_def on_done_def on_error_def stream_end_frame_def)


text \<open>A lookup that fails after the earlier annotations went through ends the loop.\<close>

lemma enrich_append_fails:
  assumes "enrich c pre w = (Inr done, w1)"
    and "py_getitem (JObj a) ''file_citation'' = Inr citation"
    and "py_getitem citation ''file_id'' = Inr file_id"
    and "fst (get_file c file_id (remote w1)) = Inl e"
  shows "fst (enrich c (pre @ a # post) w) = Inl e"
  using assms(1)
proof (induction pre arbitrary: w "done")
  case Nil
  then have "w1 = w" by simp
  with assms(2-4) show ?case
    by (auto simp: call_get_file_def split: prod.splits sum.splits)
next
  case (Cons b pre)
  from Cons.prems obtain cit fid fname w2 rest where
    b: "py_getitem (JObj b) ''file_citation'' = Inr cit" "py_getitem cit ''file_id'' = Inr fid"
       "call_get_file c fid w = (Inr fname, w2)" "enrich c pre w2 = (Inr rest, w1)"
    by (auto split: sum.splits prod.splits)
  from Cons.IH [OF b(4)] have "fst (enrich c (pre @ a # post) w2) = Inl e" .
  with b(1-3) show ?case
    by (cases "enrich c (pre @ a # post) w2") (auto split: sum.splits)
qed

lemma call_create_stream_calls:
  "calls (snd (call_create_stream c t a w)) = calls w @ [CreateStream t a]"
  by (simp add: call_create_stream_def split: prod.splits)

lemma call_create_stream_fst:
  "fst (call_create_stream c t a w) = opened_stream c t a w"
  by (simp add: call_create_stream_def opened_stream_def split: prod.splits)

section \<open>What the reader gets back from the serialiser\<close>

lemma hex_val_hex_char: "d < 16 \<Longrightarrow> hex_val (hex_char d) = Some d"
  by (auto simp: hex_val_def hex_char_def Let_def)

lemma hex_val_zero: "hex_val CHR ''0'' = Some 0"
  by (simp add: hex_val_def)

lemma char_of_hex_digits: "char_of (16 * ((of_char c :: nat) div 16) + of_char c mod 16) = c"
  by simp

lemma of_char_div_16: "(of_char c :: nat) div 16 < 16"
proof -
  have "(of_char c :: nat) < 16 * 16" by simp
  then show ?thesis by (rule less_mult_imp_div_less)
qed

lemma read_string_escape_char:
  "read_string (escape_char c @ tail) = map_option (apfst ((#) c)) (read_string tail)"
proof -
  let ?n = "of_char c :: nat"
  consider (short) "c \<in> {CHR 0x22, CHR 0x5C, CHR 0x0A, CHR 0x0D, CHR 0x09, CHR 0x08, CHR 0x0C}"
    | (hex) "c \<notin> {CHR 0x22, CHR 0x5C, CHR 0x0A, CHR 0x0D, CHR 0x09, CHR 0x08, CHR 0x0C}" "?n < 0x20 \<or> 0x7E < ?n"
    | (plain) "c \<notin> {CHR 0x22, CHR 0x5C, CHR 0x0A, CHR 0x0D, CHR 0x09, CHR 0x08, CHR 0x0C}" "\<not> (?n < 0x20 \<or> 0x7E < ?n)"
    by blast
  then show ?thesis
  proof cases
    case short
    then show ?thesis by (auto simp: escape_char_def unescape_short_def)
  next
    case hex
    have e: "escape_char c = [CHR 0x5C, CHR ''u'', CHR ''0'', CHR ''0'', hex_char (?n div 16), hex_char (?n mod 16)]"
      using hex by (simp add: escape_char_def Let_def)
    have "hex_val (hex_char (?n div 16)) = Some (?n div 16)"
      using of_char_div_16 by (rule hex_val_hex_char)
    moreover have "hex_val (hex_char (?n mod 16)) = Some (?n mod 16)"
      by (rule hex_val_hex_char) simp
    ultimately show ?thesis
      using char_of_hex_digits [of c] by (simp add: e hex_val_zero)
  next
    case plain
    then have "escape_char c = [c]" by (simp add: escape_char_def Let_def)
    with plain show ?thesis by simp
  qed
qed

lemma read_string_escaped:
  "read_string (concat (map escape_char s) @ CHR 0x22 # rest) = Some (s, rest)"
  by (induction s) (simp_all add: read_string_escape_char)

lemma read_quoted_quote: "read_quoted (quote s @ rest) = Some (s, rest)"
  using read_string_escaped [of s rest] by (simp add: read_quoted_def quote_def)

lemma read_field_quote:
  "read_field (quote k @ '': '' @ quote v @ rest) = Some ((k, v), rest)"
  using read_quoted_quote [of k "'': '' @ quote v @ rest"] read_quoted_quote [of v rest]
  by (simp add: read_field_def expect_def)

lemma read_pair_object_dumps:
  "read_pair_object (json_dumps (JObj [(k1, JStr v1), (k2, JStr v2)])) = Some ((k1, v1), (k2, v2))"
proof -
  have "json_dumps (JObj [(k1, JStr v1), (k2, JStr v2)]) =
      ''{'' @ (quote k1 @ '': '' @ quote v1 @ ('', '' @ quote k2 @ '': '' @ quote v2 @ ''}''))"
    by simp
  moreover have "read_field (quote k1 @ '': '' @ quote v1 @ ('', '' @ quote k2 @ '': '' @ quote v2 @ ''}''))
      = Some ((k1, v1), '', '' @ quote k2 @ '': '' @ quote v2 @ ''}'')"
    by (rule read_field_quote)
  moreover have "read_field (quote k2 @ '': '' @ quote v2 @ ''}'') = Some ((k2, v2), ''}'')"
    by (rule read_field_quote)
  ultimately show ?thesis by (simp add: read_pair_object_def expect_def)
qed

lemma read_first_field_dumps:
  "read_first_field (json_dumps (JObj ((k, JStr v) # kv # kvs))) = Some (k, v)"
proof -
  have "\<exists>rest. json_dumps (JObj ((k, JStr v) # kv # kvs)) = ''{'' @ (quote k @ '': '' @ quote v @ rest)"
    by simp
  then obtain rest where "json_dumps (JObj ((k, JStr v) # kv # kvs)) = ''{'' @ (quote k @ '': '' @ quote v @ rest)"
    by blast
  then show ?thesis using read_field_quote [of k v rest] by (simp add: read_first_field_def expect_def)
qed

text \<open>Setting a key makes it readable.\<close>

lemma dict_set_lookup: "map_of (dict_set d k v) k = Some v"
  by (induction d) auto

section \<open>The file map\<close>

lemma uploaded_file_map_empty:
  assumes "environ h ''UPLOADED_FILE_MAP'' = None \<or>
     (\<exists>v. environ h ''UPLOADED_FILE_MAP'' = Some v \<and> json_loads h v = None)"
  shows "uploaded_file_map h = JObj []"
  using assms by (auto simp: uploaded_file_map_def json_loads_def)

lemma docs_text_not_default: "json_dumps docs_map \<noteq> ''{}''"
  by (simp add: docs_map_def quote_def)

lemma docs_file_map: "uploaded_file_map docs_host = docs_map"
  using docs_text_not_default
  by (simp add: uploaded_file_map_def docs_host_def json_loads_def Let_def)

section \<open>The claims\<close>

text \<open>
  C1, as amended. A \<^verbatim>\<open>POST /chat\<close> whose body is not valid JSON is answered with status
  400, and while handling it exactly one call goes to the remote service: the thread
  call (retrieval for a reusable cookie pair, creation otherwise), which the route makes
  before it reads the body. No message is created.
\<close>

theorem chat_malformed_json:
  assumes "json_body req = Inl e"
  shows "status_code (fst (chat c agent req w)) = 400 \<and>
         calls (snd (chat c agent req w)) = calls w @ [thread_call agent req]"
proof -
  have t: "calls (snd (chat_thread c agent req w)) = calls w @ [thread_call agent req]"
    by (simp add: chat_thread_def thread_call_def call_get_thread_def call_create_thread_def
        Let_def split: prod.splits)
  obtain r w1 where ct: "chat_thread c agent req w = (r, w1)" by (cases "chat_thread c agent req w")
  show ?thesis
  proof (cases r)
    case (Inl e')
    with ct t show ?thesis by (simp add: chat_def)
  next
    case (Inr thread_id)
    with ct t assms show ?thesis by (simp add: chat_def)
  qed
qed

theorem chat_malformed_json_witness:
  "status_code (fst (chat sample_agents sample_agent malformed_request w0)) = 400 \<and>
   calls (snd (chat sample_agents sample_agent malformed_request w0)) = [CreateThread]"
  using chat_malformed_json [of malformed_request "''Expecting value: line 1 column 1 (char 0)''"
      sample_agents sample_agent w0]
  by (simp add: malformed_request_def thread_call_def truthy_def w0_def)

text \<open>C1 as stated fails: a first visit with a malformed body gets its 400 after a
  thread has been created remotely.\<close>

theorem chat_malformed_json_remote_call:
  "json_body malformed_request = Inl ''Expecting value: line 1 column 1 (char 0)'' \<and>
   calls w0 = [] \<and>
   chat sample_agents sample_agent malformed_request w0 =
     (HTTPException 400 ''Invalid JSON: Expecting value: line 1 column 1 (char 0)'',
      \<lparr>remote = 1, calls = [CreateThread]\<rparr>)"
  by (simp add: malformed_request_def w0_def chat_def chat_thread_def truthy_def
      call_create_thread_def sample_agents_def)


text \<open>
  C2, as amended. When the stream is created and consumed without an exception and its
  last event is the completion event (or a stream-level error event), the frames of the
  streaming response are not empty and the last one is the \<^verbatim>\<open>stream_end\<close> frame. When
  \<^verbatim>\<open>create_stream\<close> or the stream raises, the last frame is the error frame of that
  exception, which is not the \<^verbatim>\<open>stream_end\<close> frame.
\<close>

theorem get_result_last_frame:
  "(opened_stream c thread_id agent_id w = Inr s \<and> stream_failure s = None \<and>
    stream_events s \<noteq> [] \<and> is_terminal (last (stream_events s))
      \<longrightarrow> fst (get_result c thread_id agent_id w) \<noteq> [] \<and>
          last (fst (get_result c thread_id agent_id w)) = stream_end_frame) \<and>
   (stream_error c thread_id agent_id w = Some e
      \<longrightarrow> last (fst (get_result c thread_id agent_id w)) = error_frame e \<and>
          error_frame e \<noteq> stream_end_frame)"
proof (intro conjI impI)
  assume a: "opened_stream c thread_id agent_id w = Inr s \<and> stream_failure s = None \<and>
    stream_events s \<noteq> [] \<and> is_terminal (last (stream_events s))"
  obtain r w1 where cs: "call_create_stream c thread_id agent_id w = (r, w1)"
    by (cases "call_create_stream c thread_id agent_id w")
  have r: "r = Inr s"
    using a cs by (auto simp: opened_stream_def call_create_stream_def split: prod.splits)
  have ev: "stream_events s = butlast (stream_events s) @ [last (stream_events s)]"
    using a by simp
  have fr: "fst (get_result c thread_id agent_id w) = fst (consume c (stream_events s) w1)"
    using cs r a by (simp add: get_result_def split: prod.splits)
  have "fst (consume c (stream_events s) w1) =
      fst (consume c (butlast (stream_events s)) w1) @ [stream_end_frame]"
    using a consume_append [of c "butlast (stream_events s)" "[last (stream_events s)]" w1]
      consume_terminal [of "last (stream_events s)" c "snd (consume c (butlast (stream_events s)) w1)"]
    by (subst ev) simp
  with fr show "fst (get_result c thread_id agent_id w) \<noteq> []"
    and "last (fst (get_result c thread_id agent_id w)) = stream_end_frame" by simp_all
next
  assume a: "stream_error c thread_id agent_id w = Some e"
  obtain r w1 where cs: "call_create_stream c thread_id agent_id w = (r, w1)"
    by (cases "call_create_stream c thread_id agent_id w")
  have r: "r = opened_stream c thread_id agent_id w"
    using cs by (auto simp: opened_stream_def call_create_stream_def split: prod.splits)
  show "last (fst (get_result c thread_id agent_id w)) = error_frame e"
    using a cs r by (auto simp: stream_error_def get_result_def split: sum.splits prod.splits)
  show "error_frame e \<noteq> stream_end_frame"
    using error_frame_is_error [of e] stream_end_not_error by auto
qed

theorem get_result_last_frame_witness:
  "last (fst (get_result sample_agents ''thread_1'' ''asst_1'' w0)) = stream_end_frame \<and>
   last (fst (get_result breaking_agents ''thread_1'' ''asst_1'' w0)) = error_frame ''Connection reset''"
proof -
  have "opened_stream sample_agents ''thread_1'' ''asst_1'' w0 = Inr sample_stream \<and>
      stream_failure sample_stream = None \<and> stream_events sample_stream \<noteq> [] \<and>
      is_terminal (last (stream_events sample_stream))"
    by (simp add: opened_stream_def sample_agents_def sample_stream_def)
  moreover have "stream_error breaking_agents ''thread_1'' ''asst_1'' w0 = Some ''Connection reset''"
    by (simp add: stream_error_def opened_stream_def breaking_agents_def sample_agents_def)
  ultimately show ?thesis
    using get_result_last_frame [of sample_agents "''thread_1''" "''asst_1''" w0 sample_stream]
      get_result_last_frame [of breaking_agents "''thread_1''" "''asst_1''" w0 _ "''Connection reset''"]
    by blast
qed

text \<open>C2 as stated fails: a returning visit with a valid message, against a service whose
  \<^verbatim>\<open>create_stream\<close> raises, gets a body of one frame, the error frame.\<close>

theorem chat_stream_ends_with_error:
  "json_body returning_request = Inr (JObj [(''message'', JStr ''hi'')]) \<and>
   map_option fst (chat_body refusing_agents (chat refusing_agents sample_agent returning_request w0))
     = Some [error_frame ''Connection refused''] \<and>
   last [error_frame ''Connection refused''] \<noteq> stream_end_frame"
proof -
  have "chat refusing_agents sample_agent returning_request w0 =
      (StreamingResponse ''thread_1'' ''asst_1''
         [(''Cache-Control'', ''no-cache''), (''Connection'', ''keep-alive''),
          (''Content-Type'', ''text/event-stream'')]
         [(''thread_id'', ''thread_1''), (''agent_id'', ''asst_1'')],
       \<lparr>remote = 0, calls = [GetThread ''thread_1'',
           CreateMessage ''thread_1'' ''user'' (JStr ''hi'')]\<rparr>)"
    by (simp add: chat_def chat_thread_def returning_request_def sample_agent_def truthy_def
        refusing_agents_def sample_agents_def w0_def call_get_thread_def call_create_message_def
        py_get_def Let_def)
  moreover have "fst (get_result refusing_agents ''thread_1'' ''asst_1''
      \<lparr>remote = 0, calls = [GetThread ''thread_1'',
           CreateMessage ''thread_1'' ''user'' (JStr ''hi'')]\<rparr>) = [error_frame ''Connection refused'']"
    by (simp add: get_result_def call_create_stream_def refusing_agents_def sample_agents_def)
  moreover have "error_frame ''Connection refused'' \<noteq> stream_end_frame"
    using error_frame_is_error [of "''Connection refused''"] stream_end_not_error by auto
  ultimately show ?thesis
    by (simp add: chat_body_def returning_request_def)
qed


text \<open>
  C3, as amended. The \<^verbatim>\<open>message\<close> field is optional. For a body that is a JSON object
  without it, once the thread call has succeeded, the route posts a user message whose
  content is the empty string. When the posting succeeds the answer is the streaming
  response for that thread (status 200); when it raises, the answer is status 500 with
  the text of the exception: never a client error.
\<close>

theorem chat_message_optional:
  assumes "json_body req = Inr (JObj d)" and "map_of d ''message'' = None"
    and "fst (chat_thread c agent req w) = Inr thread_id"
  shows "calls (snd (chat c agent req w)) =
           calls w @ [thread_call agent req, CreateMessage thread_id ''user'' (JStr [])] \<and>
         (\<forall>message_id.
            fst (create_message c thread_id ''user'' (JStr [])
                   (remote (snd (chat_thread c agent req w)))) = Inr message_id \<longrightarrow>
            fst (chat c agent req w) =
              StreamingResponse thread_id (agent_ident agent)
                [(''Cache-Control'', ''no-cache''), (''Connection'', ''keep-alive''),
                 (''Content-Type'', ''text/event-stream'')]
                [(''thread_id'', thread_id), (''agent_id'', agent_ident agent)] \<and>
            status_code (fst (chat c agent req w)) = 200) \<and>
         (\<forall>e.
            fst (create_message c thread_id ''user'' (JStr [])
                   (remote (snd (chat_thread c agent req w)))) = Inl e \<longrightarrow>
            fst (chat c agent req w) = HTTPException 500 (''Message creation error: '' @ e) \<and>
            status_code (fst (chat c agent req w)) = 500) \<and>
         (status_code (fst (chat c agent req w)) = 200 \<or>
          status_code (fst (chat c agent req w)) = 500)"
proof -
  have t: "calls (snd (chat_thread c agent req w)) = calls w @ [thread_call agent req]"
    by (simp add: chat_thread_def thread_call_def call_get_thread_def call_create_thread_def
        Let_def split: prod.splits)
  obtain w1 where ct: "chat_thread c agent req w = (Inr thread_id, w1)"
    using assms(3) by (cases "chat_thread c agent req w") simp
  obtain r s where cr: "create_message c thread_id ''user'' (JStr []) (remote w1) = (r, s)"
    by (cases "create_message c thread_id ''user'' (JStr []) (remote w1)")
  let ?w2 = "\<lparr>remote = s, calls = calls w1 @ [CreateMessage thread_id ''user'' (JStr [])]\<rparr>"
  have cm: "call_create_message c thread_id ''user'' (JStr []) w1 = (r, ?w2)"
    using cr by (simp add: call_create_message_def)
  have r: "fst (create_message c thread_id ''user'' (JStr [])
      (remote (snd (chat_thread c agent req w)))) = r"
    using ct cr by simp
  show ?thesis
  proof (cases r)
    case (Inl e)
    with assms(1,2) ct cm t have "fst (chat c agent req w) =
        HTTPException 500 (''Message creation error: '' @ e)"
      and "calls (snd (chat c agent req w)) =
        calls w @ [thread_call agent req, CreateMessage thread_id ''user'' (JStr [])]"
      by (simp_all add: chat_def py_get_def Let_def)
    with r Inl show ?thesis by simp
  next
    case (Inr message_id)
    with assms(1,2) ct cm t have "fst (chat c agent req w) =
        StreamingResponse thread_id (agent_ident agent)
          [(''Cache-Control'', ''no-cache''), (''Connection'', ''keep-alive''),
           (''Content-Type'', ''text/event-stream'')]
          [(''thread_id'', thread_id), (''agent_id'', agent_ident agent)]"
      and "calls (snd (chat c agent req w)) =
        calls w @ [thread_call agent req, CreateMessage thread_id ''user'' (JStr [])]"
      by (simp_all add: chat_def py_get_def Let_def)
    with r Inr show ?thesis by simp
  qed
qed

theorem chat_message_optional_witness:
  "calls (snd (chat sample_agents sample_agent empty_object_request w0)) =
     [CreateThread, CreateMessage ''thread_2'' ''user'' (JStr [])] \<and>
   fst (chat sample_agents sample_agent empty_object_request w0) =
     StreamingResponse ''thread_2'' ''asst_1''
       [(''Cache-Control'', ''no-cache''), (''Connection'', ''keep-alive''),
        (''Content-Type'', ''text/event-stream'')]
       [(''thread_id'', ''thread_2''), (''agent_id'', ''asst_1'')] \<and>
   calls (snd (chat unposting_agents sample_agent empty_object_request w0)) =
     [CreateThread, CreateMessage ''thread_2'' ''user'' (JStr [])] \<and>
   fst (chat unposting_agents sample_agent empty_object_request w0) =
     HTTPException 500 ''Message creation error: Rate limit exceeded''"
proof -
  have b: "json_body empty_object_request = Inr (JObj [])"
    and m: "map_of ([] :: (string \<times> json) list) ''message'' = None"
    by (simp_all add: empty_object_request_def)
  have t1: "chat_thread sample_agents sample_agent empty_object_request w0 =
      (Inr ''thread_2'', \<lparr>remote = 1, calls = [CreateThread]\<rparr>)"
    by (simp add: empty_object_request_def chat_thread_def truthy_def call_create_thread_def
        sample_agents_def w0_def)
  have t2: "chat_thread unposting_agents sample_agent empty_object_request w0 =
      (Inr ''thread_2'', \<lparr>remote = 1, calls = [CreateThread]\<rparr>)"
    by (simp add: empty_object_request_def chat_thread_def truthy_def call_create_thread_def
        unposting_agents_def sample_agents_def w0_def)
  have p1: "fst (create_message sample_agents ''thread_2'' ''user'' (JStr [])
      (remote (snd (chat_thread sample_agents sample_agent empty_object_request w0)))) = Inr ''msg_1''"
    by (simp add: t1) (simp add: sample_agents_def)
  have p2: "fst (create_message unposting_agents ''thread_2'' ''user'' (JStr [])
      (remote (snd (chat_thread unposting_agents sample_agent empty_object_request w0)))) =
        Inl ''Rate limit exceeded''"
    by (simp add: t2) (simp add: unposting_agents_def sample_agents_def)
  have f1: "fst (chat_thread sample_agents sample_agent empty_object_request w0) = Inr ''thread_2''"
    and f2: "fst (chat_thread unposting_agents sample_agent empty_object_request w0) = Inr ''thread_2''"
    by (simp_all add: t1 t2)
  have c: "thread_call sample_agent empty_object_request = CreateThread" and w: "calls w0 = []"
    by (simp_all add: thread_call_def empty_object_request_def truthy_def w0_def)
  from chat_message_optional [OF b m f1] p1 c w
  have 1: "calls (snd (chat sample_agents sample_agent empty_object_request w0)) =
     [CreateThread, CreateMessage ''thread_2'' ''user'' (JStr [])] \<and>
   fst (chat sample_agents sample_agent empty_object_request w0) =
     StreamingResponse ''thread_2'' ''asst_1''
       [(''Cache-Control'', ''no-cache''), (''Connection'', ''keep-alive''),
        (''Content-Type'', ''text/event-stream'')]
       [(''thread_id'', ''thread_2''), (''agent_id'', ''asst_1'')]"
    by (simp add: sample_agent_def)
  from chat_message_optional [OF b m f2] p2 c w
  have 2: "calls (snd (chat unposting_agents sample_agent empty_object_request w0)) =
     [CreateThread, CreateMessage ''thread_2'' ''user'' (JStr [])] \<and>
   fst (chat unposting_agents sample_agent empty_object_request w0) =
     HTTPException 500 ''Message creation error: Rate limit exceeded''"
    by simp
  from 1 2 show ?thesis by simp
qed

text \<open>C3 as stated fails: the empty object is answered with the stream, after an empty
  message has been posted to a new thread.\<close>

theorem chat_posts_empty_message:
  "json_body empty_object_request = Inr (JObj []) \<and>
   chat sample_agents sample_agent empty_object_request w0 =
     (StreamingResponse ''thread_2'' ''asst_1''
        [(''Cache-Control'', ''no-cache''), (''Connection'', ''keep-alive''),
         (''Content-Type'', ''text/event-stream'')]
        [(''thread_id'', ''thread_2''), (''agent_id'', ''asst_1'')],
      \<lparr>remote = 1, calls = [CreateThread, CreateMessage ''thread_2'' ''user'' (JStr [])]\<rparr>)"
  by (simp add: chat_def chat_thread_def empty_object_request_def sample_agent_def truthy_def
      sample_agents_def w0_def call_create_thread_def call_create_message_def py_get_def Let_def)






text \<open>
  C5, as amended. A thread message whose status is not \<^verbatim>\<open>completed\<close> gives no frame. For
  a completed message, when the file lookup of one of its annotations fails (the
  annotations before it having been enriched), the handler gives no frame and the
  translator goes on with the events that follow. When every lookup succeeds and the
  message has at least one text item, the handler gives, and the translator yields,
  exactly one frame \<^verbatim>\<open>data: <json>\<close> followed by a blank line: the \<^verbatim>\<open>completed_message\<close>
  payload whose content is the text of the first text item and whose annotations are the
  message's annotations, in order, each with \<^verbatim>\<open>file_name\<close> set to the name the service
  answered for the file it cites.
\<close>

theorem on_thread_message_cases:
  "(message_status m \<noteq> ''completed'' \<longrightarrow> fst (on_thread_message c m w) = None) \<and>
   (message_status m = ''completed'' \<and>
    file_citation_annotations m = pre @ a # post \<and>
    enrich c pre w = (Inr enriched, w1) \<and>
    py_getitem (JObj a) ''file_citation'' = Inr citation \<and>
    py_getitem citation ''file_id'' = Inr file_id \<and>
    fst (get_file c file_id (remote w1)) = Inl e
      \<longrightarrow> fst (on_thread_message c m w) = None \<and>
          consume c (ThreadMessageEvent m # evs) w = consume c evs (snd (on_thread_message c m w))) \<and>
   (message_status m = ''completed'' \<and>
    looked_up_names c (file_citation_annotations m) (remote w) = Some (names, s') \<and>
    text_messages m = t # ts
      \<longrightarrow> fst (on_thread_message c m w) =
            Some (''data: '' @
                  json_dumps
                    (JObj [(''content'', JStr t),
                           (''annotations'', JArr
                              (map2 (\<lambda>a n. JObj (dict_set a ''file_name'' (JStr n)))
                                 (file_citation_annotations m) names)),
                           (''type'', JStr ''completed_message'')]) @
                  [CHR 0x0A, CHR 0x0A]) \<and>
          fst (consume c (ThreadMessageEvent m # evs) w) =
            the (fst (on_thread_message c m w)) #
              fst (consume c evs (snd (on_thread_message c m w))) \<and>
          remote (snd (on_thread_message c m w)) = s' \<and>
          length names = length (file_citation_annotations m) \<and>
          list_all2 (\<lambda>j n. py_getitem j ''file_name'' = Inr (JStr n))
            (map2 (\<lambda>a n. JObj (dict_set a ''file_name'' (JStr n)))
               (file_citation_annotations m) names) names \<and>
          read_first_field
            (json_dumps
               (JObj [(''content'', JStr t),
                      (''annotations'', JArr
                         (map2 (\<lambda>a n. JObj (dict_set a ''file_name'' (JStr n)))
                            (file_citation_annotations m) names)),
                      (''type'', JStr ''completed_message'')])) = Some (''content'', t))"
proof (intro conjI impI)
  assume "message_status m \<noteq> ''completed''"
  then show "fst (on_thread_message c m w) = None" by (simp add: on_thread_message_def)
next
  assume a: "message_status m = ''completed'' \<and>
    file_citation_annotations m = pre @ a # post \<and>
    enrich c pre w = (Inr enriched, w1) \<and>
    py_getitem (JObj a) ''file_citation'' = Inr citation \<and>
    py_getitem citation ''file_id'' = Inr file_id \<and>
    fst (get_file c file_id (remote w1)) = Inl e"
  then have "fst (enrich c (file_citation_annotations m) w) = Inl e"
    using enrich_append_fails [of c pre w enriched w1 a citation file_id e post] by simp
  then show n: "fst (on_thread_message c m w) = None"
    by (cases "enrich c (file_citation_annotations m) w") (simp add: on_thread_message_def)
  show "consume c (ThreadMessageEvent m # evs) w = consume c evs (snd (on_thread_message c m w))"
    using n by (cases "on_thread_message c m w") (simp add: process_event_def truthy_def)
next
  let ?anns = "map2 (\<lambda>a n. JObj (dict_set a ''file_name'' (JStr n))) (file_citation_annotations m) names"
  let ?payload = "JObj [(''content'', JStr t), (''annotations'', JArr ?anns),
                        (''type'', JStr ''completed_message'')]"
  assume a: "message_status m = ''completed'' \<and>
    looked_up_names c (file_citation_annotations m) (remote w) = Some (names, s') \<and>
    text_messages m = t # ts"
  have loop: "fst (enrich c anns v) =
        Inr (map2 (\<lambda>a n. JObj (dict_set a ''file_name'' (JStr n))) anns ns) \<and>
      remote (snd (enrich c anns v)) = s' \<and> length ns = length anns"
    if "looked_up_names c anns (remote v) = Some (ns, s')" for anns v ns
    using that
  proof (induction anns arbitrary: v ns)
    case Nil
    then show ?case by simp
  next
    case (Cons b rest)
    from Cons.prems obtain citation file_id name s1 ns' where
      b: "map_of b ''file_citation'' = Some (JObj citation)"
         "map_of citation ''file_id'' = Some file_id"
         "get_file c file_id (remote v) = (Inr name, s1)"
         "looked_up_names c rest s1 = Some (ns', s')"
         "ns = name # ns'"
      by (auto split: option.splits json.splits sum.splits prod.splits)
    let ?v1 = "\<lparr>remote = s1, calls = calls v @ [GetFile file_id]\<rparr>"
    have g: "call_get_file c file_id v = (Inr name, ?v1)"
      using b(3) by (simp add: call_get_file_def)
    have "looked_up_names c rest (remote ?v1) = Some (ns', s')" using b(4) by simp
    from Cons.IH [OF this]
    have ih: "fst (enrich c rest ?v1) =
          Inr (map2 (\<lambda>a n. JObj (dict_set a ''file_name'' (JStr n))) rest ns')"
        "remote (snd (enrich c rest ?v1)) = s'" "length ns' = length rest"
      by simp_all
    show ?case
      using b(1,2,5) g ih by (cases "enrich c rest ?v1") (simp add: py_getitem_def)
  qed
  from a have e: "fst (enrich c (file_citation_annotations m) w) = Inr ?anns"
      "remote (snd (enrich c (file_citation_annotations m) w)) = s'"
      "length names = length (file_citation_annotations m)"
    using loop [of "file_citation_annotations m" w names] by simp_all
  obtain w2 where en: "enrich c (file_citation_annotations m) w = (Inr ?anns, w2)"
    using e(1) by (cases "enrich c (file_citation_annotations m) w") simp
  have om: "on_thread_message c m w = (Some (serialize_sse_event ?payload), w2)"
    using a en by (simp add: on_thread_message_def)
  have se: "serialize_sse_event ?payload = ''data: '' @ json_dumps ?payload @ [CHR 0x0A, CHR 0x0A]"
    by (simp only: serialize_sse_event_def)
  show "fst (on_thread_message c m w) = Some (''data: '' @ json_dumps ?payload @ [CHR 0x0A, CHR 0x0A])"
    using om by (simp only: se fst_conv)
  show "fst (consume c (ThreadMessageEvent m # evs) w) =
      the (fst (on_thread_message c m w)) # fst (consume c evs (snd (on_thread_message c m w)))"
    using om serialize_truthy [of ?payload]
    by (simp only: consume_Cons_fst) (simp add: process_event_def)
  show "remote (snd (on_thread_message c m w)) = s'" using om en e(2) by simp
  show "length names = length (file_citation_annotations m)" by (rule e(3))
  show "list_all2 (\<lambda>j n. py_getitem j ''file_name'' = Inr (JStr n)) ?anns names"
    using e(3) by (simp add: list_all2_conv_all_nth py_getitem_def dict_set_lookup)
  show "read_first_field (json_dumps ?payload) = Some (''content'', t)"
    by (rule read_first_field_dumps)
qed

theorem on_thread_message_cases_witness:
  "fst (on_thread_message sample_agents (cited_message\<lparr>message_status := ''in_progress''\<rparr>) w0) = None \<and>
   fst (on_thread_message sample_agents unknown_file_message w0) = None \<and>
   consume sample_agents [ThreadMessageEvent unknown_file_message, DoneEvent] w0 =
     consume sample_agents [DoneEvent] (snd (on_thread_message sample_agents unknown_file_message w0)) \<and>
   fst (on_thread_message sample_agents cited_message w0) =
     Some (''data: '' @
           json_dumps
             (JObj [(''content'', JStr ''Hello [1]''),
                    (''annotations'', JArr
                       [JObj [(''type'', JStr ''file_citation''), (''text'', JStr ''[1]''),
                              (''file_citation'', JObj [(''file_id'', JStr ''file_1'')]),
                              (''start_index'', JInt 6), (''end_index'', JInt 9),
                              (''file_name'', JStr ''report.md'')]]),
                    (''type'', JStr ''completed_message'')]) @
           [CHR 0x0A, CHR 0x0A])"
proof -
  let ?first = "[(''type'', JStr ''file_citation''), (''text'', JStr ''[1]''),
          (''file_citation'', JObj [(''file_id'', JStr ''file_1'')]),
          (''start_index'', JInt 6), (''end_index'', JInt 9)]"
  let ?second = "[(''type'', JStr ''file_citation''), (''text'', JStr ''[2]''),
          (''file_citation'', JObj [(''file_id'', JStr ''file_9'')])]"
  let ?enriched = "[JObj (?first @ [(''file_name'', JStr ''report.md'')])]"
  let ?w1 = "\<lparr>remote = 0 :: nat, calls = [GetFile (JStr ''file_1'')]\<rparr>"
  have e: "enrich sample_agents [?first] w0 = (Inr ?enriched, ?w1)"
    by (simp add: py_getitem_def call_get_file_def sample_agents_def w0_def)
  have a: "message_status (cited_message\<lparr>message_status := ''in_progress''\<rparr>) \<noteq> ''completed''"
    by simp
  have b: "message_status unknown_file_message = ''completed'' \<and>
      file_citation_annotations unknown_file_message = [?first] @ ?second # [] \<and>
      enrich sample_agents [?first] w0 = (Inr ?enriched, ?w1) \<and>
      py_getitem (JObj ?second) ''file_citation'' = Inr (JObj [(''file_id'', JStr ''file_9'')]) \<and>
      py_getitem (JObj [(''file_id'', JStr ''file_9'')]) ''file_id'' = Inr (JStr ''file_9'') \<and>
      fst (get_file sample_agents (JStr ''file_9'') (remote ?w1)) = Inl ''No file found''"
    using e by (simp add: unknown_file_message_def cited_message_def py_getitem_def sample_agents_def)
  have c: "message_status cited_message = ''completed'' \<and>
      looked_up_names sample_agents (file_citation_annotations cited_message) (remote w0) =
        Some ([''report.md''], 0) \<and>
      text_messages cited_message = ''Hello [1]'' # []"
    by (simp add: cited_message_def sample_agents_def w0_def)
  from a on_thread_message_cases [of "cited_message\<lparr>message_status := ''in_progress''\<rparr>" sample_agents w0]
  have 1: "fst (on_thread_message sample_agents (cited_message\<lparr>message_status := ''in_progress''\<rparr>) w0) = None"
    by blast
  from b on_thread_message_cases [of unknown_file_message sample_agents w0 "[?first]" ?second "[]"
      ?enriched ?w1 "JObj [(''file_id'', JStr ''file_9'')]" "JStr ''file_9''" "''No file found''" "[DoneEvent]"]
  have 2: "fst (on_thread_message sample_agents unknown_file_message w0) = None \<and>
      consume sample_agents [ThreadMessageEvent unknown_file_message, DoneEvent] w0 =
        consume sample_agents [DoneEvent] (snd (on_thread_message sample_agents unknown_file_message w0))"
    by blast
  from c on_thread_message_cases [of cited_message sample_agents w0 _ _ _ _ _ _ _ _ _
      "[''report.md'']" 0 "''Hello [1]''" "[]"]
  have "fst (on_thread_message sample_agents cited_message w0) =
      Some (''data: '' @
            json_dumps
              (JObj [(''content'', JStr ''Hello [1]''),
                     (''annotations'', JArr
                        (map2 (\<lambda>a n. JObj (dict_set a ''file_name'' (JStr n)))
                           (file_citation_annotations cited_message) [''report.md''])),
                     (''type'', JStr ''completed_message'')]) @
            [CHR 0x0A, CHR 0x0A])"
    by blast
  moreover have "map2 (\<lambda>a n. JObj (dict_set a ''file_name'' (JStr n)))
      (file_citation_annotations cited_message) [''report.md''] = ?enriched"
    by (simp add: cited_message_def)
  ultimately have 3: "fst (on_thread_message sample_agents cited_message w0) =
      Some (''data: '' @
            json_dumps (JObj [(''content'', JStr ''Hello [1]''), (''annotations'', JArr ?enriched),
                              (''type'', JStr ''completed_message'')]) @
            [CHR 0x0A, CHR 0x0A])"
    by (simp only:)
  from 1 2 3 show ?thesis by (simp only: append_Cons append_Nil simp_thms)
qed

text \<open>C5 as stated fails twice. A completed message without citations and without a
  text item has no failing lookup, and yet gives no frame (\<^verbatim>\<open>text_messages[0]\<close> raises, and
  the handler's \<^verbatim>\<open>except\<close> returns \<^verbatim>\<open>None\<close>). A completed message with two text items gives
  a frame whose content is the first item alone, not the full text.\<close>

theorem on_thread_message_text_items:
  "message_status textless_message = ''completed'' \<and>
   file_citation_annotations textless_message = [] \<and>
   on_thread_message sample_agents textless_message w0 = (None, w0) \<and>
   message_status two_text_message = ''completed'' \<and>
   text_messages two_text_message = [''Part one.'', ''Part two.''] \<and>
   fst (on_thread_message sample_agents two_text_message w0) =
     Some (''data: {'' @ [CHR 0x22] @ ''content'' @ [CHR 0x22] @ '': '' @
           [CHR 0x22] @ ''Part one.'' @ [CHR 0x22] @ '', '' @
           [CHR 0x22] @ ''annotations'' @ [CHR 0x22] @ '': [], '' @
           [CHR 0x22] @ ''type'' @ [CHR 0x22] @ '': '' @
           [CHR 0x22] @ ''completed_message'' @ [CHR 0x22] @ ''}'' @ [CHR 0x0A, CHR 0x0A])"
  by (simp add: textless_message_def two_text_message_def on_thread_message_def
      serialize_sse_event_def quote_def escape_char_def)

text \<open>
  C6, as amended. When \<^verbatim>\<open>UPLOADED_FILE_MAP\<close> is absent or its value does not parse as
  JSON, the file map is the empty dictionary, and every \<^verbatim>\<open>GET /fetch-document\<close> with a
  non-empty \<^verbatim>\<open>file_name\<close> is answered 404.
\<close>

theorem fetch_document_without_map:
  assumes "environ h ''UPLOADED_FILE_MAP'' = None \<or>
     (\<exists>v. environ h ''UPLOADED_FILE_MAP'' = Some v \<and> json_loads h v = None)"
    and "query_params req ''file_name'' = Some name" and "name \<noteq> []"
  shows "uploaded_file_map h = JObj [] \<and>
         fetch_document h req = HTTPException 404 ''File not found''"
proof -
  have m: "uploaded_file_map h = JObj []" using assms(1) by (rule uploaded_file_map_empty)
  with assms(2,3) show ?thesis by (simp add: fetch_document_def truthy_def Let_def)
qed

theorem fetch_document_without_map_witness:
  "fetch_document bare_host (document_request (Some ''a.md'')) = HTTPException 404 ''File not found'' \<and>
   fetch_document garbled_host (document_request (Some ''a.md'')) = HTTPException 404 ''File not found''"
proof -
  have 1: "environ bare_host ''UPLOADED_FILE_MAP'' = None \<or>
     (\<exists>v. environ bare_host ''UPLOADED_FILE_MAP'' = Some v \<and> json_loads bare_host v = None)"
    by (simp add: bare_host_def)
  have 2: "environ garbled_host ''UPLOADED_FILE_MAP'' = None \<or>
     (\<exists>v. environ garbled_host ''UPLOADED_FILE_MAP'' = Some v \<and> json_loads garbled_host v = None)"
    by (simp add: garbled_host_def bare_host_def json_loads_def)
  have q: "query_params (document_request (Some ''a.md'')) ''file_name'' = Some ''a.md''" and n: "''a.md'' \<noteq> []"
    by (simp_all add: document_request_def)
  from fetch_document_without_map [OF 1 q n] fetch_document_without_map [OF 2 q n]
  show ?thesis by simp
qed

text \<open>C6 as stated fails: with the variable absent, a request whose \<^verbatim>\<open>file_name\<close>
  parameter is present and empty is answered 400, not 404.\<close>

theorem fetch_document_empty_name_without_map:
  "environ bare_host ''UPLOADED_FILE_MAP'' = None \<and>
   query_params (document_request (Some [])) ''file_name'' = Some [] \<and>
   fetch_document bare_host (document_request (Some [])) = HTTPException 400 ''file_name is required''"
  by (simp add: bare_host_def document_request_def fetch_document_def truthy_def)

text \<open>
  C7, as amended. \<^verbatim>\<open>GET /fetch-document\<close> answers 400 when \<^verbatim>\<open>file_name\<close> is missing or
  empty. For a non-empty name and a file map that is a JSON object, it answers 404 when
  the name is not a key of the map; 500 with the body \<^verbatim>\<open>{"error": <message>}\<close> when the
  entry has no path or the path cannot be read; and 200 with the text read from the path
  when it can.
\<close>

theorem fetch_document_cases:
  "(query_params req ''file_name'' = None \<or> query_params req ''file_name'' = Some []
      \<longrightarrow> fetch_document h req = HTTPException 400 ''file_name is required'') \<and>
   (query_params req ''file_name'' = Some name \<and> name \<noteq> [] \<and> uploaded_file_map h = JObj items
      \<longrightarrow> (map_of items name = None
             \<longrightarrow> fetch_document h req = HTTPException 404 ''File not found'') \<and>
          (map_of items name = Some entry \<and> py_getitem entry ''path'' = Inl e
             \<longrightarrow> fetch_document h req = JSONResponse (JObj [(''error'', JStr e)]) 500) \<and>
          (map_of items name = Some entry \<and> py_getitem entry ''path'' = Inr file_path \<and>
           read_file h file_path = Inl e
             \<longrightarrow> fetch_document h req = JSONResponse (JObj [(''error'', JStr e)]) 500) \<and>
          (map_of items name = Some entry \<and> py_getitem entry ''path'' = Inr file_path \<and>
           read_file h file_path = Inr data
             \<longrightarrow> fetch_document h req = PlainTextResponse data \<and>
                 status_code (fetch_document h req) = 200))"
  by (auto simp: fetch_document_def truthy_def Let_def)

theorem fetch_document_cases_witness:
  "fetch_document docs_host (document_request None) = HTTPException 400 ''file_name is required'' \<and>
   fetch_document docs_host (document_request (Some ''z.md'')) = HTTPException 404 ''File not found'' \<and>
   fetch_document docs_host (document_request (Some ''c.md'')) =
     JSONResponse (JObj [(''error'', JStr (key_error ''path''))]) 500 \<and>
   fetch_document docs_host (document_request (Some ''b.md'')) =
     JSONResponse (JObj [(''error'', JStr ''[Errno 2] No such file or directory'')]) 500 \<and>
   fetch_document docs_host (document_request (Some ''a.md'')) = PlainTextResponse ''# Notes''"
proof -
  let ?items = "[(''a.md'', JObj [(''path'', JStr ''/data/a.md'')]),
           (''b.md'', JObj [(''path'', JStr ''/data/b.md'')]),
           (''c.md'', JObj [])]"
  have m: "uploaded_file_map docs_host = JObj ?items"
    by (simp add: docs_file_map docs_map_def)
  have 0: "query_params (document_request None) ''file_name'' = None"
    by (simp add: document_request_def)
  have q: "\<And>n. query_params (document_request (Some n)) ''file_name'' = Some n"
    by (simp add: document_request_def)
  have c: "py_getitem (JObj []) ''path'' = Inl (key_error ''path'')"
    and b: "py_getitem (JObj [(''path'', JStr ''/data/b.md'')]) ''path'' = Inr (JStr ''/data/b.md'')"
    and a: "py_getitem (JObj [(''path'', JStr ''/data/a.md'')]) ''path'' = Inr (JStr ''/data/a.md'')"
    by (simp_all add: py_getitem_def)
  have rb: "read_file docs_host (JStr ''/data/b.md'') = Inl ''[Errno 2] No such file or directory''"
    and ra: "read_file docs_host (JStr ''/data/a.md'') = Inr ''# Notes''"
    by (simp_all add: read_file_def docs_host_def)
  have 1: "fetch_document docs_host (document_request None) = HTTPException 400 ''file_name is required''"
    using fetch_document_cases [of "document_request None" docs_host] 0 by blast
  have 2: "fetch_document docs_host (document_request (Some ''z.md'')) = HTTPException 404 ''File not found''"
    using fetch_document_cases [of "document_request (Some ''z.md'')" docs_host "''z.md''" ?items] q m
    by simp
  have 3: "fetch_document docs_host (document_request (Some ''c.md'')) =
     JSONResponse (JObj [(''error'', JStr (key_error ''path''))]) 500"
    using fetch_document_cases [of "document_request (Some ''c.md'')" docs_host "''c.md''" ?items
        "JObj []" "key_error ''path''"] q m c
    by simp
  have 4: "fetch_document docs_host (document_request (Some ''b.md'')) =
     JSONResponse (JObj [(''error'', JStr ''[Errno 2] No such file or directory'')]) 500"
    using fetch_document_cases [of "document_request (Some ''b.md'')" docs_host "''b.md''" ?items
        "JObj [(''path'', JStr ''/data/b.md'')]" "''[Errno 2] No such file or directory''" "JStr ''/data/b.md''"] q m b rb
    by simp
  have 5: "fetch_document docs_host (document_request (Some ''a.md'')) = PlainTextResponse ''# Notes''"
    using fetch_document_cases [of "document_request (Some ''a.md'')" docs_host "''a.md''" ?items
        "JObj [(''path'', JStr ''/data/a.md'')]" _ "JStr ''/data/a.md''" "''# Notes''"] q m a ra
    by simp
  from 1 2 3 4 5 show ?thesis by simp
qed

text \<open>C7 as stated fails: the empty name is not a key of the file map, and the request
  that carries it is answered 400, not 404.\<close>

theorem fetch_document_empty_name_with_map:
  "query_params (document_request (Some [])) ''file_name'' = Some [] \<and>
   uploaded_file_map docs_host = docs_map \<and>
   map_of [(''a.md'', JObj [(''path'', JStr ''/data/a.md'')]),
           (''b.md'', JObj [(''path'', JStr ''/data/b.md'')]),
           (''c.md'', JObj [])] [] = None \<and>
   status_code (fetch_document docs_host (document_request (Some []))) = 400"
  by (simp add: docs_file_map document_request_def fetch_document_def truthy_def)

text \<open>
  C10. A \<^verbatim>\<open>file_name\<close> parameter that is present and empty is answered like a missing
  one, with status 400, whatever the host: the file map is not consulted.
\<close>

theorem fetch_document_empty_name:
  assumes "query_params req ''file_name'' = Some []"
  shows "fetch_document h req = HTTPException 400 ''file_name is required'' \<and>
         fetch_document h req = fetch_document h' (req\<lparr>query_params := (query_params req)(''file_name'' := None)\<rparr>)"
  using assms by (simp add: fetch_document_def truthy_def)

theorem fetch_document_empty_name_witness:
  "fetch_document docs_host (document_request (Some [])) = HTTPException 400 ''file_name is required'' \<and>
   fetch_document docs_host (document_request (Some [])) =
     fetch_document bare_host
       ((document_request (Some []))\<lparr>query_params := (query_params (document_request (Some [])))(''file_name'' := None)\<rparr>)"
proof -
  have "query_params (document_request (Some [])) ''file_name'' = Some []"
    by (simp add: document_request_def)
  from fetch_document_empty_name [OF this, of docs_host bare_host] show ?thesis .
qed


text \<open>
  C8. When \<^verbatim>\<open>create_stream\<close> raises, or the created stream raises while it is consumed,
  the frames of \<^verbatim>\<open>get_result\<close> end with the frame \<^verbatim>\<open>data: <json>\<close> and a blank line whose
  JSON text reads back as \<^verbatim>\<open>type\<close> equal to \<^verbatim>\<open>error\<close> and \<^verbatim>\<open>message\<close> equal to the text of
  that exception. No frame before it has the form of an error frame, so there is exactly
  one, and nothing follows it. The stream is created once: the calls of the run are that
  one \<^verbatim>\<open>create_stream\<close> and the file lookups of the handler.
\<close>

theorem get_result_error:
  assumes "stream_error c thread_id agent_id w = Some e"
  shows "\<exists>frames gs.
           fst (get_result c thread_id agent_id w) =
             frames @ [''data: '' @ json_dumps (JObj [(''type'', JStr ''error''), (''message'', JStr e)])
                         @ [CHR 0x0A, CHR 0x0A]] \<and>
           read_pair_object (json_dumps (JObj [(''type'', JStr ''error''), (''message'', JStr e)])) =
             Some ((''type'', ''error''), (''message'', e)) \<and>
           is_error_frame (''data: '' @ json_dumps (JObj [(''type'', JStr ''error''), (''message'', JStr e)])
                             @ [CHR 0x0A, CHR 0x0A]) \<and>
           list_all (\<lambda>f. \<not> is_error_frame f) frames \<and>
           calls (snd (get_result c thread_id agent_id w)) =
             calls w @ CreateStream thread_id agent_id # gs \<and>
           list_all is_get_file gs"
proof -
  let ?last = "''data: '' @ json_dumps (JObj [(''type'', JStr ''error''), (''message'', JStr e)])
                 @ [CHR 0x0A, CHR 0x0A]"
  have ef: "error_frame e = ?last"
    by (simp only: error_frame_def serialize_sse_event_def)
  have ie: "is_error_frame ?last" using error_frame_is_error [of e] by (simp only: ef)
  have rd: "read_pair_object (json_dumps (JObj [(''type'', JStr ''error''), (''message'', JStr e)])) =
      Some ((''type'', ''error''), (''message'', e))"
    by (rule read_pair_object_dumps)
  obtain r w1 where cs: "call_create_stream c thread_id agent_id w = (r, w1)"
    by (cases "call_create_stream c thread_id agent_id w")
  have r: "opened_stream c thread_id agent_id w = r"
    using call_create_stream_fst [of c thread_id agent_id w] cs by simp
  have w1: "calls w1 = calls w @ [CreateStream thread_id agent_id]"
    using call_create_stream_calls [of c thread_id agent_id w] cs by simp
  show ?thesis
  proof (cases r)
    case (Inl e')
    with assms r have "e' = e" by (simp add: stream_error_def)
    with Inl cs w1 have "fst (get_result c thread_id agent_id w) = [] @ [error_frame e]"
      and "calls (snd (get_result c thread_id agent_id w)) = calls w @ CreateStream thread_id agent_id # []"
      by (simp_all add: get_result_def)
    then have "fst (get_result c thread_id agent_id w) = [] @ [?last]"
      and "calls (snd (get_result c thread_id agent_id w)) = calls w @ CreateStream thread_id agent_id # []"
      by (simp_all only: ef)
    moreover have "list_all (\<lambda>f. \<not> is_error_frame f) []" and "list_all is_get_file []" by simp_all
    ultimately show ?thesis using ie rd by blast
  next
    case (Inr s)
    with assms r have f: "stream_failure s = Some e" by (simp add: stream_error_def)
    obtain frames w2 where co: "consume c (stream_events s) w1 = (frames, w2)"
      by (cases "consume c (stream_events s) w1")
    obtain gs where gs: "calls w2 = calls w1 @ gs" "list_all is_get_file gs"
      using consume_calls [of c "stream_events s" w1] co by auto
    have nf: "list_all (\<lambda>f. \<not> is_error_frame f) frames"
      using consume_no_error_frame [of c "stream_events s" w1] co by simp
    have "fst (get_result c thread_id agent_id w) = frames @ [error_frame e]"
      and "calls (snd (get_result c thread_id agent_id w)) = calls w @ CreateStream thread_id agent_id # gs"
      using cs Inr co f gs(1) w1 by (simp_all add: get_result_def)
    then have "fst (get_result c thread_id agent_id w) = frames @ [?last]"
      and "calls (snd (get_result c thread_id agent_id w)) = calls w @ CreateStream thread_id agent_id # gs"
      by (simp_all only: ef)
    with nf gs(2) show ?thesis using ie rd by blast
  qed
qed

theorem get_result_error_witness:
  "(\<exists>frames gs.
      fst (get_result breaking_agents ''thread_1'' ''asst_1'' w0) =
        frames @ [''data: '' @ json_dumps (JObj [(''type'', JStr ''error''), (''message'', JStr ''Connection reset'')])
                    @ [CHR 0x0A, CHR 0x0A]] \<and>
      read_pair_object (json_dumps (JObj [(''type'', JStr ''error''), (''message'', JStr ''Connection reset'')])) =
        Some ((''type'', ''error''), (''message'', ''Connection reset'')) \<and>
      is_error_frame (''data: '' @ json_dumps (JObj [(''type'', JStr ''error''), (''message'', JStr ''Connection reset'')])
                        @ [CHR 0x0A, CHR 0x0A]) \<and>
      list_all (\<lambda>f. \<not> is_error_frame f) frames \<and>
      calls (snd (get_result breaking_agents ''thread_1'' ''asst_1'' w0)) =
        CreateStream ''thread_1'' ''asst_1'' # gs \<and>
      list_all is_get_file gs) \<and>
   fst (get_result breaking_agents ''thread_1'' ''asst_1'' w0) =
     [serialize_sse_event (JObj [(''content'', JStr ''Hel''), (''type'', JStr ''message'')]),
      error_frame ''Connection reset''] \<and>
   fst (get_result refusing_agents ''thread_1'' ''asst_1'' w0) = [error_frame ''Connection refused''] \<and>
   error_frame ''Connection refused'' =
     ''data: {'' @ [CHR 0x22] @ ''type'' @ [CHR 0x22] @ '': '' @ [CHR 0x22] @ ''error'' @ [CHR 0x22] @
     '', '' @ [CHR 0x22] @ ''message'' @ [CHR 0x22] @ '': '' @
     [CHR 0x22] @ ''Connection refused'' @ [CHR 0x22] @ ''}'' @ [CHR 0x0A, CHR 0x0A]"
proof -
  have "stream_error breaking_agents ''thread_1'' ''asst_1'' w0 = Some ''Connection reset''"
    by (simp add: stream_error_def opened_stream_def breaking_agents_def sample_agents_def)
  from get_result_error [OF this]
  have 1: "\<exists>frames gs.
      fst (get_result breaking_agents ''thread_1'' ''asst_1'' w0) =
        frames @ [''data: '' @ json_dumps (JObj [(''type'', JStr ''error''), (''message'', JStr ''Connection reset'')])
                    @ [CHR 0x0A, CHR 0x0A]] \<and>
      read_pair_object (json_dumps (JObj [(''type'', JStr ''error''), (''message'', JStr ''Connection reset'')])) =
        Some ((''type'', ''error''), (''message'', ''Connection reset'')) \<and>
      is_error_frame (''data: '' @ json_dumps (JObj [(''type'', JStr ''error''), (''message'', JStr ''Connection reset'')])
                        @ [CHR 0x0A, CHR 0x0A]) \<and>
      list_all (\<lambda>f. \<not> is_error_frame f) frames \<and>
      calls (snd (get_result breaking_agents ''thread_1'' ''asst_1'' w0)) =
        CreateStream ''thread_1'' ''asst_1'' # gs \<and>
      list_all is_get_file gs"
    by (simp only: w0_def world.simps append_Nil)
  have t: "truthy (Some (serialize_sse_event (JObj [(''content'', JStr ''Hel''), (''type'', JStr ''message'')])))"
    by (rule serialize_truthy)
  have 2: "fst (get_result breaking_agents ''thread_1'' ''asst_1'' w0) =
     [serialize_sse_event (JObj [(''content'', JStr ''Hel''), (''type'', JStr ''message'')]),
      error_frame ''Connection reset'']"
    using t by (simp add: get_result_def call_create_stream_def breaking_agents_def sample_agents_def
        process_event_def on_message_delta_def)
  have 3: "fst (get_result refusing_agents ''thread_1'' ''asst_1'' w0) = [error_frame ''Connection refused'']"
    by (simp add: get_result_def call_create_stream_def refusing_agents_def sample_agents_def)
  have 4: "error_frame ''Connection refused'' =
     ''data: {'' @ [CHR 0x22] @ ''type'' @ [CHR 0x22] @ '': '' @ [CHR 0x22] @ ''error'' @ [CHR 0x22] @
     '', '' @ [CHR 0x22] @ ''message'' @ [CHR 0x22] @ '': '' @
     [CHR 0x22] @ ''Connection refused'' @ [CHR 0x22] @ ''}'' @ [CHR 0x0A, CHR 0x0A]"
    by (simp add: error_frame_def serialize_sse_event_def quote_def escape_char_def)
  from 1 2 3 4 show ?thesis by blast
qed

text \<open>
  C9. For a partial-message event the handler returns, and the translator yields exactly
  once before it goes on with the events that follow, the frame \<^verbatim>\<open>data: <json>\<close> followed
  by a blank line, where the JSON text is the object of two fields that reads back as
  \<^verbatim>\<open>content\<close> equal to the text of the delta, whatever characters it holds, and
  \<^verbatim>\<open>type\<close> equal to \<^verbatim>\<open>message\<close>.
\<close>

theorem message_delta_frame:
  "on_message_delta text =
     Some (''data: '' @ json_dumps (JObj [(''content'', JStr text), (''type'', JStr ''message'')])
             @ [CHR 0x0A, CHR 0x0A]) \<and>
   consume c (MessageDelta text # evs) w =
     ((''data: '' @ json_dumps (JObj [(''content'', JStr text), (''type'', JStr ''message'')])
         @ [CHR 0x0A, CHR 0x0A]) # fst (consume c evs w),
      snd (consume c evs w)) \<and>
   read_pair_object (json_dumps (JObj [(''content'', JStr text), (''type'', JStr ''message'')])) =
     Some ((''content'', text), (''type'', ''message''))"
proof -
  have f: "on_message_delta text =
      Some (''data: '' @ json_dumps (JObj [(''content'', JStr text), (''type'', JStr ''message'')])
             @ [CHR 0x0A, CHR 0x0A])"
    by (simp only: on_message_delta_def serialize_sse_event_def)
  have "truthy (on_message_delta text)" by (simp add: f truthy_def)
  then have "consume c (MessageDelta text # evs) w =
      (the (on_message_delta text) # fst (consume c evs w), snd (consume c evs w))"
    by (simp add: process_event_def split: prod.splits)
  with f show ?thesis by (simp only: read_pair_object_dumps option.sel simp_thms)
qed

theorem message_delta_frame_witness:
  "on_message_delta [CHR 0x22, CHR ''a'', CHR 0x0A] =
     Some (''data: {'' @ [CHR 0x22] @ ''content'' @ [CHR 0x22] @ '': '' @
           [CHR 0x22, CHR 0x5C, CHR 0x22, CHR ''a'', CHR 0x5C, CHR ''n'', CHR 0x22] @ '', '' @
           [CHR 0x22] @ ''type'' @ [CHR 0x22] @ '': '' @ [CHR 0x22] @ ''message'' @ [CHR 0x22] @
           ''}'' @ [CHR 0x0A, CHR 0x0A]) \<and>
   fst (consume sample_agents [MessageDelta [], DoneEvent] w0) =
     [''data: {'' @ [CHR 0x22] @ ''content'' @ [CHR 0x22] @ '': '' @ [CHR 0x22, CHR 0x22] @ '', '' @
      [CHR 0x22] @ ''type'' @ [CHR 0x22] @ '': '' @ [CHR 0x22] @ ''message'' @ [CHR 0x22] @
      ''}'' @ [CHR 0x0A, CHR 0x0A],
      stream_end_frame]"
proof -
  have d: "consume sample_agents [DoneEvent] w0 = ([stream_end_frame], w0)"
    using serialize_truthy [of "JObj [(''type'', JStr ''stream_end'')]"]
    by (simp add: process_event_def on_done_def stream_end_frame_def)
  have 1: "json_dumps (JObj [(''content'', JStr [CHR 0x22, CHR ''a'', CHR 0x0A]), (''type'', JStr ''message'')]) =
      ''{'' @ [CHR 0x22] @ ''content'' @ [CHR 0x22] @ '': '' @
           [CHR 0x22, CHR 0x5C, CHR 0x22, CHR ''a'', CHR 0x5C, CHR ''n'', CHR 0x22] @ '', '' @
           [CHR 0x22] @ ''type'' @ [CHR 0x22] @ '': '' @ [CHR 0x22] @ ''message'' @ [CHR 0x22] @ ''}''"
    by (simp add: quote_def escape_char_def)
  have 2: "json_dumps (JObj [(''content'', JStr []), (''type'', JStr ''message'')]) =
      ''{'' @ [CHR 0x22] @ ''content'' @ [CHR 0x22] @ '': '' @ [CHR 0x22, CHR 0x22] @ '', '' @
      [CHR 0x22] @ ''type'' @ [CHR 0x22] @ '': '' @ [CHR 0x22] @ ''message'' @ [CHR 0x22] @ ''}''"
    by (simp add: quote_def escape_char_def)
  from message_delta_frame [of "[CHR 0x22, CHR ''a'', CHR 0x0A]" sample_agents "[]" w0]
  have a: "on_message_delta [CHR 0x22, CHR ''a'', CHR 0x0A] =
     Some (''data: '' @ json_dumps (JObj [(''content'', JStr [CHR 0x22, CHR ''a'', CHR 0x0A]), (''type'', JStr ''message'')])
             @ [CHR 0x0A, CHR 0x0A])"
    by blast
  from message_delta_frame [of "[]" sample_agents "[DoneEvent]" w0] d
  have b: "fst (consume sample_agents [MessageDelta [], DoneEvent] w0) =
     [''data: '' @ json_dumps (JObj [(''content'', JStr []), (''type'', JStr ''message'')])
         @ [CHR 0x0A, CHR 0x0A], stream_end_frame]"
    by simp
  from a b show ?thesis by (simp only: 1 2) simp
qed


end
